theory Spec2Isabelle
  imports Complex_Main "HOL-Library.Word" "HOL-Library.AList"
begin

section \<open>Common data\<close>

text \<open>
  Python \<open>bytes\<close> are lists of 8-bit words; a \<open>bytes32\<close> is a \<open>bytes\<close> value of length 32.
  Exceptions of the source are values of \<open>py_error\<close>; a function that can raise returns
  \<open>py_error + 'a\<close> with \<open>Inl\<close> for the exception.
\<close>

type_synonym bytes = "8 word list"

datatype Err =
    INVALID_CONDITION
  | ASSERT_COIN_CONSUMED_FAILED
  | ASSERT_MY_COIN_ID_FAILED
  | ASSERT_BLOCK_INDEX_EXCEEDS_FAILED
  | ASSERT_BLOCK_AGE_EXCEEDS_FAILED
  | ASSERT_TIME_EXCEEDS_FAILED
  | INVALID_PREV_BLOCK_HASH
  | OTHER_ERR nat

datatype py_error =
    ValueError
  | RuntimeError
  | IndexError
  | KeyError
  | AttributeError
  | AssertionError
  | ConsensusError Err

section \<open>src/types/program.py: tree hashes\<close>

text \<open>
  \<open>SExp\<close> is clvm's s-expression: an atom (\<open>listp()\<close> is false, \<open>as_atom()\<close> gives its bytes)
  or a pair (\<open>listp()\<close> is true, \<open>first()\<close> and \<open>rest()\<close> give its parts). \<open>Program\<close> is a
  subclass of \<open>SExp\<close> that adds methods and no data, so \<open>Program.to\<close> of an s-expression is
  the same tree.
\<close>

datatype SExp = Atom bytes | Pair SExp SExp

definition Program_to :: "SExp \<Rightarrow> SExp" where
  "Program_to v = v"

text \<open>\<open>bytes32(v)\<close>: the sized-bytes constructor raises \<open>ValueError\<close> unless \<open>v\<close> has 32 bytes.\<close>

definition bytes32 :: "bytes \<Rightarrow> py_error + bytes" where
  "bytes32 v = (if length v = 32 then Inr v else Inl ValueError)"

text \<open>
  \<open>Program._tree_hash(self, precalculated)\<close>. \<open>std_hash\<close> (SHA-256) is a parameter. The left
  subtree is hashed first; an exception there leaves the right one unvisited.
\<close>

function Program_tree_hash :: "(bytes \<Rightarrow> bytes) \<Rightarrow> SExp \<Rightarrow> bytes set \<Rightarrow> py_error + bytes" where
  "Program_tree_hash std_hash (Pair l r) precalculated =
     (case Program_tree_hash std_hash (Program_to l) precalculated of
        Inl e \<Rightarrow> Inl e
      | Inr left \<Rightarrow>
          (case Program_tree_hash std_hash (Program_to r) precalculated of
             Inl e \<Rightarrow> Inl e
           | Inr right \<Rightarrow> bytes32 (std_hash ([2] @ left @ right))))"
| "Program_tree_hash std_hash (Atom atom) precalculated =
     (if atom \<in> precalculated then bytes32 atom
      else bytes32 (std_hash ([1] @ atom)))"
  by pat_completeness auto
termination
  by (relation "measure (\<lambda>(h, node, pre). size node)") (auto simp: Program_to_def)

definition Program_get_tree_hash :: "(bytes \<Rightarrow> bytes) \<Rightarrow> SExp \<Rightarrow> bytes list \<Rightarrow> py_error + bytes" where
  "Program_get_tree_hash std_hash self args = Program_tree_hash std_hash self (set args)"

text \<open>The module-level \<open>_tree_hash(node, precalculated)\<close>.\<close>

fun tree_hash :: "(bytes \<Rightarrow> bytes) \<Rightarrow> SExp \<Rightarrow> bytes set \<Rightarrow> py_error + bytes" where
  "tree_hash std_hash (Pair l r) precalculated =
     (case tree_hash std_hash l precalculated of
        Inl e \<Rightarrow> Inl e
      | Inr left \<Rightarrow>
          (case tree_hash std_hash r precalculated of
             Inl e \<Rightarrow> Inl e
           | Inr right \<Rightarrow> bytes32 (std_hash ([2] @ left @ right))))"
| "tree_hash std_hash (Atom atom) precalculated =
     (if atom \<in> precalculated then bytes32 atom
      else bytes32 (std_hash ([1] @ atom)))"

text \<open>
  \<open>SerializedProgram.get_tree_hash(self, *args)\<close>: the buffer is deserialized with clvm's
  \<open>sexp_from_stream\<close> (a parameter; it raises on malformed input) and hashed by \<open>_tree_hash\<close>.
\<close>

definition SerializedProgram_get_tree_hash ::
  "(bytes \<Rightarrow> py_error + SExp) \<Rightarrow> (bytes \<Rightarrow> bytes) \<Rightarrow> bytes \<Rightarrow> bytes list \<Rightarrow> py_error + bytes" where
  "SerializedProgram_get_tree_hash sexp_from_stream std_hash buf args =
     (case sexp_from_stream buf of
        Inl e \<Rightarrow> Inl e
      | Inr tmp \<Rightarrow> tree_hash std_hash tmp (set args))"

section \<open>src/consensus/mempool_check_conditions.py\<close>

text \<open>
  Modelled from the spec: the \<open>ConditionOpcode\<close> enumeration is not among the sources. The
  five opcodes the function dispatches on are the known ones; \<open>OTHER_OPCODE\<close> stands for any
  other member of the enumeration, tagged by its byte value.
\<close>

datatype ConditionOpcode =
    ASSERT_COIN_CONSUMED
  | ASSERT_MY_COIN_ID
  | ASSERT_BLOCK_INDEX_EXCEEDS
  | ASSERT_BLOCK_AGE_EXCEEDS
  | ASSERT_TIME_EXCEEDS
  | OTHER_OPCODE nat

record ConditionVarPair =
  opcode :: ConditionOpcode
  vars :: "bytes list"

text \<open>
  Of a \<open>SpendBundle\<close> the checks read \<open>removal_names()\<close>; of a \<open>CoinRecord\<close> they read
  \<open>coin.name()\<close> and \<open>confirmed_block_index\<close>.
\<close>

record SpendBundle =
  removal_names :: "bytes list"

record CoinRecord =
  coin_name :: bytes
  confirmed_block_index :: int

text \<open>
  The environment of the checks: \<open>int_from_bytes\<close> (\<open>None\<close> when it raises \<open>ValueError\<close>)
  and the clock reading \<open>int(time.time() * 1000)\<close>.
\<close>

record cond_env =
  int_from_bytes :: "bytes \<Rightarrow> int option"
  now_millis :: int

text \<open>\<open>condition.vars[0]\<close> raises \<open>IndexError\<close> on an empty list.\<close>

definition vars0 :: "ConditionVarPair \<Rightarrow> py_error + bytes" where
  "vars0 condition = (case vars condition of [] \<Rightarrow> Inl IndexError | v # _ \<Rightarrow> Inr v)"

definition mempool_assert_coin_consumed ::
  "ConditionVarPair \<Rightarrow> SpendBundle \<Rightarrow> py_error + Err option" where
  "mempool_assert_coin_consumed condition spend_bundle =
     (let bundle_removals = removal_names spend_bundle in
      case vars0 condition of
        Inl e \<Rightarrow> Inl e
      | Inr coin_name' \<Rightarrow>
          if coin_name' \<notin> set bundle_removals then Inr (Some ASSERT_COIN_CONSUMED_FAILED)
          else Inr None)"

definition mempool_assert_my_coin_id ::
  "ConditionVarPair \<Rightarrow> CoinRecord \<Rightarrow> py_error + Err option" where
  "mempool_assert_my_coin_id condition unspent =
     (case vars0 condition of
        Inl e \<Rightarrow> Inl e
      | Inr v \<Rightarrow>
          if coin_name unspent \<noteq> v then Inr (Some ASSERT_MY_COIN_ID_FAILED)
          else Inr None)"

definition mempool_assert_block_index_exceeds ::
  "cond_env \<Rightarrow> ConditionVarPair \<Rightarrow> int \<Rightarrow> py_error + Err option" where
  "mempool_assert_block_index_exceeds env condition peak_height =
     (case vars0 condition of
        Inl e \<Rightarrow> Inl e
      | Inr v \<Rightarrow>
          (case int_from_bytes env v of
             None \<Rightarrow> Inr (Some INVALID_CONDITION)
           | Some expected_block_index \<Rightarrow>
               if peak_height + 1 \<le> expected_block_index
               then Inr (Some ASSERT_BLOCK_INDEX_EXCEEDS_FAILED)
               else Inr None))"

definition mempool_assert_block_age_exceeds ::
  "cond_env \<Rightarrow> ConditionVarPair \<Rightarrow> CoinRecord \<Rightarrow> int \<Rightarrow> py_error + Err option" where
  "mempool_assert_block_age_exceeds env condition unspent peak_height =
     (case vars0 condition of
        Inl e \<Rightarrow> Inl e
      | Inr v \<Rightarrow>
          (case int_from_bytes env v of
             None \<Rightarrow> Inr (Some INVALID_CONDITION)
           | Some expected_block_age \<Rightarrow>
               (let expected_block_index = expected_block_age + confirmed_block_index unspent in
                if peak_height + 1 \<le> expected_block_index
                then Inr (Some ASSERT_BLOCK_AGE_EXCEEDS_FAILED)
                else Inr None)))"

definition mempool_assert_time_exceeds ::
  "cond_env \<Rightarrow> ConditionVarPair \<Rightarrow> py_error + Err option" where
  "mempool_assert_time_exceeds env condition =
     (case vars0 condition of
        Inl e \<Rightarrow> Inl e
      | Inr v \<Rightarrow>
          (case int_from_bytes env v of
             None \<Rightarrow> Inr (Some INVALID_CONDITION)
           | Some expected_mili_time \<Rightarrow>
               (let current_time = now_millis env in
                if current_time \<le> expected_mili_time
                then Inr (Some ASSERT_TIME_EXCEEDS_FAILED)
                else Inr None)))"

text \<open>
  The body of the inner loop for one condition: the \<open>if\<close>/\<open>elif\<close> chain on the opcode. It has
  no \<open>else\<close>: for any other opcode \<open>error\<close> keeps its initial value \<open>None\<close>.
\<close>

definition check_condition ::
  "cond_env \<Rightarrow> CoinRecord \<Rightarrow> SpendBundle \<Rightarrow> int \<Rightarrow> ConditionVarPair \<Rightarrow> py_error + Err option" where
  "check_condition env unspent spend_bundle peak_height cvp =
     (if opcode cvp = ASSERT_COIN_CONSUMED then mempool_assert_coin_consumed cvp spend_bundle
      else if opcode cvp = ASSERT_MY_COIN_ID then mempool_assert_my_coin_id cvp unspent
      else if opcode cvp = ASSERT_BLOCK_INDEX_EXCEEDS
        then mempool_assert_block_index_exceeds env cvp peak_height
      else if opcode cvp = ASSERT_BLOCK_AGE_EXCEEDS
        then mempool_assert_block_age_exceeds env cvp unspent peak_height
      else if opcode cvp = ASSERT_TIME_EXCEEDS then mempool_assert_time_exceeds env cvp
      else Inr None)"

text \<open>The inner loop \<open>for cvp in con_list\<close>: the first error (or exception) ends the function.\<close>

fun check_con_list ::
  "cond_env \<Rightarrow> CoinRecord \<Rightarrow> SpendBundle \<Rightarrow> int \<Rightarrow> ConditionVarPair list \<Rightarrow> py_error + Err option" where
  "check_con_list env unspent spend_bundle peak_height [] = Inr None"
| "check_con_list env unspent spend_bundle peak_height (cvp # rest) =
     (case check_condition env unspent spend_bundle peak_height cvp of
        Inl e \<Rightarrow> Inl e
      | Inr (Some error) \<Rightarrow> Inr (Some error)
      | Inr None \<Rightarrow> check_con_list env unspent spend_bundle peak_height rest)"

text \<open>
  \<open>mempool_check_conditions_dict\<close>: the dictionary is the list of its items in iteration
  order; the outer loop runs over its values.
\<close>

fun mempool_check_conditions_dict ::
  "cond_env \<Rightarrow> CoinRecord \<Rightarrow> SpendBundle \<Rightarrow> (ConditionOpcode \<times> ConditionVarPair list) list \<Rightarrow> int
     \<Rightarrow> py_error + Err option" where
  "mempool_check_conditions_dict env unspent spend_bundle [] peak_height = Inr None"
| "mempool_check_conditions_dict env unspent spend_bundle ((k, con_list) # rest) peak_height =
     (case check_con_list env unspent spend_bundle peak_height con_list of
        Inl e \<Rightarrow> Inl e
      | Inr (Some error) \<Rightarrow> Inr (Some error)
      | Inr None \<Rightarrow> mempool_check_conditions_dict env unspent spend_bundle rest peak_height)"

definition known_opcode :: "ConditionOpcode \<Rightarrow> bool" where
  "known_opcode op = (op = ASSERT_COIN_CONSUMED \<or> op = ASSERT_MY_COIN_ID
     \<or> op = ASSERT_BLOCK_INDEX_EXCEEDS \<or> op = ASSERT_BLOCK_AGE_EXCEEDS
     \<or> op = ASSERT_TIME_EXCEEDS)"

section \<open>src/full_node/full_node.py: data\<close>

text \<open>
  The records hold the attributes the full node reads. Hashes that the source obtains by a
  method call (\<open>get_hash()\<close>, \<open>header_hash\<close>) are fields of their object. Heights, weights and
  iteration counts are the source's unsigned integers; a difference that may go below zero
  is computed on \<open>int\<close>.
\<close>

record SubEpochSummary =
  ses_new_difficulty :: "nat option"
  ses_payload :: nat

record EndOfSubSlotBundle =
  cc_new_difficulty :: "nat option"
  cc_hash :: bytes
  cc_end_of_slot_vdf_challenge :: bytes
  rc_hash :: bytes
  rc_end_of_slot_vdf_challenge :: bytes

record SubBlockRecord =
  sbr_header_hash :: bytes
  sbr_prev_hash :: bytes
  sbr_sub_block_height :: nat
  sbr_weight :: nat
  sbr_total_iters :: nat
  sbr_deficit :: nat
  sbr_signage_point_index :: nat
  sbr_required_iters :: nat
  sbr_sub_slot_iters :: nat
  sbr_first_in_sub_slot :: bool
  sbr_reward_infusion_new_challenge :: bytes
  sbr_sub_epoch_summary_included :: "SubEpochSummary option"

text \<open>
  \<open>fb_foliage_timestamp\<close> is \<open>foliage_block.timestamp\<close>, \<open>None\<close> when \<open>foliage_block\<close> is;
  \<open>fb_foliage_hash\<close> is \<open>foliage_sub_block.get_hash()\<close>; \<open>fb_unfinished_reward_hash\<close> is
  \<open>reward_chain_sub_block.get_unfinished().get_hash()\<close>; \<open>fb_signage_point\<close> stands for the
  four signage-point fields copied into a \<open>SignagePoint\<close>.
\<close>

record FullBlock =
  fb_header_hash :: bytes
  fb_foliage_hash :: bytes
  fb_prev_header_hash :: bytes
  fb_sub_block_height :: nat
  fb_weight :: nat
  fb_transactions_generator :: "bytes option"
  fb_unfinished_reward_hash :: bytes
  fb_reward_chain_hash :: bytes
  fb_finished_sub_slots :: "EndOfSubSlotBundle list"
  fb_foliage_timestamp :: "nat option"
  fb_pool_target :: "bytes \<times> nat"
  fb_pool_signature :: bytes
  fb_pool_public_key :: bytes
  fb_signage_point :: nat

text \<open>
  \<open>ub_partial_hash\<close> is \<open>block.get_hash()\<close>, \<open>ub_reward_hash\<close> is
  \<open>block.reward_chain_sub_block.get_hash()\<close> (the trunk hash), \<open>ub_rc_sp_vdf_challenge\<close> is
  \<open>reward_chain_sp_vdf.challenge\<close>, \<open>None\<close> when \<open>reward_chain_sp_vdf\<close> is.
\<close>

record UnfinishedBlock =
  ub_partial_hash :: bytes
  ub_reward_hash :: bytes
  ub_prev_header_hash :: bytes
  ub_total_iters :: nat
  ub_signage_point_index :: nat
  ub_finished_sub_slots :: "EndOfSubSlotBundle list"
  ub_transactions_generator :: "bytes option"
  ub_pos_ss_cc_challenge_hash :: bytes
  ub_rc_sp_vdf_challenge :: "bytes option"
  ub_foliage :: nat

record PreValidationResult =
  pvr_error :: "Err option"
  pvr_required_iters :: "nat option"

datatype ReceiveBlockResult =
    NEW_PEAK
  | ADDED_AS_ORPHAN
  | INVALID_BLOCK
  | ALREADY_HAVE_BLOCK
  | DISCONNECTED_BLOCK

datatype NodeType = FULL_NODE | WALLET | TIMELORD | FARMER

record WSChiaConnection =
  peer_node_id :: bytes
  connection_type :: NodeType
  closed :: bool

text \<open>The entries of \<open>wp.recent_chain_data\<close>: \<open>reward_chain_sub_block.sub_block_height\<close> and \<open>.weight\<close>.\<close>

record RecentChainEntry =
  rce_sub_block_height :: nat
  rce_weight :: nat

record WeightProof =
  recent_chain_data :: "RecentChainEntry list"
  wp_payload :: nat

text \<open>What a peer may answer to a request; \<open>None\<close> in place of an answer is a timeout.\<close>

datatype sub_block_response = RespondSubBlock FullBlock | RejectSubBlock nat

datatype sub_blocks_response = RespondSubBlocks "FullBlock list" | RejectSubBlocks nat nat

datatype proof_of_weight_response = RespondProofOfWeight WeightProof | OtherProofResponse nat

record NewInfusionPointVDF =
  ip_unfinished_reward_hash :: bytes
  ip_reward_chain_ip_vdf_challenge :: bytes
  ip_vdfs_and_proofs :: nat

text \<open>Protocol messages with the fields the node fills in.\<close>

datatype Message =
    FullNodeNewPeak bytes nat nat int bytes
  | WalletNewPeak bytes nat nat int
  | TimelordNewPeak bytes nat nat nat "SubEpochSummary option" "(bytes \<times> nat) list" nat
  | NewSignagePointOrEndOfSubSlot bytes bytes nat bytes
  | TimelordNewUnfinishedSubBlock bytes nat nat nat "SubEpochSummary option" bytes
  | FullNodeNewUnfinishedSubBlock bytes

text \<open>
  What the node does to the outside, in order: messages handed to the server, calls of the
  state-change callback, connections closed, the mempool and the weight-proof handler
  notified, the long-sync task created, and each call of \<open>blockchain.receive_block\<close> with its
  result.
\<close>

datatype event =
    StateChanged string
  | SendToAll Message NodeType
  | SendToAllExcept Message NodeType bytes
  | PeerClosed bytes
  | MempoolNewPeak "SubBlockRecord option"
  | CreatePrevSubEpochSegments
  | GetProofOfWeight bytes
  | SyncTaskCreated
  | ReceivedBlock bytes ReceiveBlockResult

text \<open>
  Modelled from the spec: \<open>SyncStore\<close> is not among the sources. It holds the sync mode, the
  peer records \<open>{peer_id \<rightarrow> (peak_hash, peak_height, peak_weight)}\<close>, the reverse index
  \<open>{peak_hash \<rightarrow> set<peer_id>}\<close>, the sync target, the set \<open>batch_syncing\<close> and the
  \<open>peers_changed\<close> event.
\<close>

record SyncStore =
  sync_mode :: bool
  peer_to_peak :: "(bytes \<times> (bytes \<times> nat \<times> nat)) list"
  peak_to_peer :: "(bytes \<times> bytes list) list"
  sync_target_hash :: "bytes option"
  sync_target_height :: "nat option"
  batch_syncing :: "bytes set"
  peers_changed :: bool

text \<open>
  Modelled from the spec: \<open>FullNodeStore\<close> is not among the sources. The node reads and
  writes the set of seen partial hashes, the unfinished blocks keyed by trunk hash (with
  their heights), the list of finished sub-slots and the cache of infusion points kept for
  later; \<open>fns_rest\<close> stands for everything else it holds.
\<close>

record FullNodeStore =
  seen_unfinished_blocks :: "bytes set"
  unfinished_blocks :: "bytes \<rightharpoonup> (nat \<times> UnfinishedBlock)"
  finished_sub_slots :: "(EndOfSubSlotBundle option \<times> nat) list"
  future_ip_cache :: "NewInfusionPointVDF list"
  fns_rest :: nat

text \<open>
  The state of a \<open>FullNode\<close>. \<open>'c\<close> is the state of the \<open>Blockchain\<close> collaborator (with its
  block and coin stores). \<open>server_present\<close> is \<open>self.server is not None\<close>; \<open>all_connections\<close> is
  \<open>self.server.all_connections\<close> in iteration order.
\<close>

record 'c FullNode =
  blockchain :: 'c
  full_node_store :: FullNodeStore
  sync_store :: SyncStore
  server_present :: bool
  all_connections :: "(bytes \<times> WSChiaConnection) list"
  shut_down :: bool
  events :: "event list"

section \<open>Collaborators\<close>

record ConsensusConstants =
  MAX_BLOCK_COUNT_PER_REQUESTS :: nat
  WEIGHT_PROOF_RECENT_BLOCKS :: nat
  SUB_BLOCKS_CACHE_SIZE :: nat
  MAX_SUB_SLOT_SUB_BLOCKS :: nat
  GENESIS_PREV_HASH :: bytes
  FIRST_CC_CHALLENGE :: bytes
  FIRST_RC_CHALLENGE :: bytes
  GENESIS_PRE_FARM_POOL_PUZZLE_HASH :: bytes

record Config =
  short_sync_sub_blocks_behind_threshold :: nat
  sync_sub_blocks_behind_threshold :: nat

text \<open>
  The \<open>Blockchain\<close> class is not among the sources: its methods are parameters.
  \<open>sub_block_record\<close> gives \<open>None\<close> where the source raises \<open>KeyError\<close>; \<open>receive_block\<close>
  returns the new blockchain state with its result triple.
\<close>

record 'c BlockchainOps =
  contains_sub_block :: "'c \<Rightarrow> bytes \<Rightarrow> bool"
  get_peak :: "'c \<Rightarrow> SubBlockRecord option"
  get_full_peak :: "'c \<Rightarrow> FullBlock option"
  get_block_peak :: "'c \<Rightarrow> FullBlock option"
  sub_block_record :: "'c \<Rightarrow> bytes \<Rightarrow> SubBlockRecord option"
  try_sub_block :: "'c \<Rightarrow> bytes \<Rightarrow> SubBlockRecord option"
  pre_validate_blocks_multiprocessing :: "'c \<Rightarrow> FullBlock list \<Rightarrow> PreValidationResult list option"
  receive_block :: "'c \<Rightarrow> FullBlock \<Rightarrow> PreValidationResult \<Rightarrow> nat option
      \<Rightarrow> (ReceiveBlockResult \<times> Err option \<times> nat option) \<times> 'c"
  validate_unfinished_block :: "'c \<Rightarrow> UnfinishedBlock \<Rightarrow> nat option \<times> Err option"
  get_next_difficulty :: "'c \<Rightarrow> bytes \<Rightarrow> bool \<Rightarrow> nat"
  get_next_slot_iters :: "'c \<Rightarrow> bytes \<Rightarrow> bool \<Rightarrow> nat"
  get_sp_and_ip_sub_slots :: "'c \<Rightarrow> bytes
      \<Rightarrow> (EndOfSubSlotBundle option \<times> EndOfSubSlotBundle option) option"
  get_recent_reward_challenges :: "'c \<Rightarrow> (bytes \<times> nat) list"
  clean_sub_block_records :: "'c \<Rightarrow> 'c"
  clean_sub_block_record :: "'c \<Rightarrow> int \<Rightarrow> 'c"
  warmup :: "'c \<Rightarrow> nat \<Rightarrow> 'c"

text \<open>
  Consensus functions and the methods of \<open>SubBlockRecord\<close> that need the constants, the
  weight-proof validation and the signature check: none is among the sources.
\<close>

record 'c ConsensusOps =
  is_overflow_sub_block :: "nat \<Rightarrow> bool"
  can_finish_sub_and_full_epoch :: "'c \<Rightarrow> nat \<Rightarrow> nat \<Rightarrow> bytes option \<Rightarrow> bool \<Rightarrow> bool \<times> bool"
  next_sub_epoch_summary_full :: "'c \<Rightarrow> nat \<Rightarrow> FullBlock \<Rightarrow> SubEpochSummary option"
  next_sub_epoch_summary_unfinished :: "'c \<Rightarrow> nat \<Rightarrow> UnfinishedBlock \<Rightarrow> SubEpochSummary option"
  get_sub_slot_iters_and_difficulty ::
    "'c \<Rightarrow> UnfinishedBlock \<Rightarrow> SubBlockRecord option \<Rightarrow> nat \<times> nat"
  calculate_sp_iters :: "nat \<Rightarrow> nat \<Rightarrow> nat"
  unfinished_block_to_full_block ::
    "'c \<Rightarrow> UnfinishedBlock \<Rightarrow> NewInfusionPointVDF \<Rightarrow> EndOfSubSlotBundle list
      \<Rightarrow> SubBlockRecord option \<Rightarrow> nat \<Rightarrow> nat \<Rightarrow> FullBlock"
  sp_total_iters :: "SubBlockRecord \<Rightarrow> nat"
  ip_sub_slot_total_iters :: "SubBlockRecord \<Rightarrow> nat"
  is_challenge_sub_block :: "SubBlockRecord \<Rightarrow> bool"
  validate_weight_proof :: "'c \<Rightarrow> WeightProof \<Rightarrow> bool \<times> nat"
  AugSchemeMPL_verify :: "bytes \<Rightarrow> bytes \<times> nat \<Rightarrow> bytes \<Rightarrow> bool"

text \<open>
  The methods of \<open>FullNodeStore\<close> that work on its sub-slots, signage points and candidate
  blocks are parameters as well.
\<close>

record 'c StoreOps =
  fns_new_peak :: "'c \<Rightarrow> FullNodeStore \<Rightarrow> SubBlockRecord \<Rightarrow> EndOfSubSlotBundle option
      \<Rightarrow> EndOfSubSlotBundle option \<Rightarrow> bool \<Rightarrow> EndOfSubSlotBundle option \<times> FullNodeStore"
  fns_new_signage_point :: "'c \<Rightarrow> FullNodeStore \<Rightarrow> nat \<Rightarrow> SubBlockRecord \<Rightarrow> nat \<Rightarrow> nat
      \<Rightarrow> FullNodeStore"
  fns_get_sub_slot :: "FullNodeStore \<Rightarrow> bytes \<Rightarrow> (EndOfSubSlotBundle \<times> nat \<times> nat) option"
  fns_get_finished_sub_slots :: "'c \<Rightarrow> FullNodeStore \<Rightarrow> SubBlockRecord option \<Rightarrow> bytes \<Rightarrow> bool
      \<Rightarrow> EndOfSubSlotBundle list"
  fns_clear_candidate_blocks_below :: "FullNodeStore \<Rightarrow> nat \<Rightarrow> FullNodeStore"

text \<open>
  The network: what the peer with a given node id answers to \<open>request_sub_block(height,
  include_transactions)\<close>, \<open>request_sub_blocks(start, end, include_transactions)\<close> and
  \<open>request_proof_of_weight(height, header_hash)\<close>.
\<close>

record Network =
  request_sub_block :: "bytes \<Rightarrow> nat \<Rightarrow> bool \<Rightarrow> sub_block_response option"
  request_sub_blocks :: "bytes \<Rightarrow> nat \<Rightarrow> nat \<Rightarrow> bool \<Rightarrow> sub_blocks_response option"
  request_proof_of_weight :: "bytes \<Rightarrow> nat \<Rightarrow> bytes \<Rightarrow> proof_of_weight_response option"

text \<open>
  Everything a handler is run with: constants, configuration, collaborators, the network,
  the clock (\<open>time.time()\<close>, in seconds) and the index \<open>random.choice\<close> draws.
\<close>

record 'c Env =
  constants :: ConsensusConstants
  config :: Config
  bc :: "'c BlockchainOps"
  cns :: "'c ConsensusOps"
  sto :: "'c StoreOps"
  net :: Network
  now :: rat
  random_index :: nat

section \<open>Handlers as state transformers\<close>

text \<open>
  A handler runs on the node state and returns a value, raises an exception (the state
  changes made so far stay), or does not return.
\<close>

datatype ('a, 's) outcome = Returned 'a 's | Raised py_error 's | Diverged

type_synonym ('a, 's) prog = "'s \<Rightarrow> ('a, 's) outcome"

definition ret :: "'a \<Rightarrow> ('a, 's) prog" where
  "ret x = (\<lambda>s. Returned x s)"

definition raise :: "py_error \<Rightarrow> ('a, 's) prog" where
  "raise e = (\<lambda>s. Raised e s)"

definition diverge :: "('a, 's) prog" where
  "diverge = (\<lambda>s. Diverged)"

definition bind :: "('a, 's) prog \<Rightarrow> ('a \<Rightarrow> ('b, 's) prog) \<Rightarrow> ('b, 's) prog" where
  "bind m f = (\<lambda>s. case m s of
      Returned x s' \<Rightarrow> f x s'
    | Raised e s' \<Rightarrow> Raised e s'
    | Diverged \<Rightarrow> Diverged)"

definition seq :: "(unit, 's) prog \<Rightarrow> ('b, 's) prog \<Rightarrow> ('b, 's) prog" where
  "seq m k = bind m (\<lambda>_. k)"

definition gets :: "('s \<Rightarrow> 'a) \<Rightarrow> ('a, 's) prog" where
  "gets f = (\<lambda>s. Returned (f s) s)"

definition modify :: "('s \<Rightarrow> 's) \<Rightarrow> (unit, 's) prog" where
  "modify f = (\<lambda>s. Returned () (f s))"

definition py_when :: "bool \<Rightarrow> (unit, 's) prog \<Rightarrow> (unit, 's) prog" where
  "py_when b m = (if b then m else ret ())"

text \<open>\<open>assert b\<close>.\<close>

definition py_assert :: "bool \<Rightarrow> (unit, 's) prog" where
  "py_assert b = (if b then ret () else raise AssertionError)"

text \<open>\<open>try: m  except Exception: handler; raise\<close>.\<close>

definition on_exception :: "('a, 's) prog \<Rightarrow> (unit, 's) prog \<Rightarrow> ('a, 's) prog" where
  "on_exception m handler = (\<lambda>s. case m s of
      Raised e s' \<Rightarrow>
        (case handler s' of
           Returned u s'' \<Rightarrow> Raised e s''
         | Raised e' s'' \<Rightarrow> Raised e' s''
         | Diverged \<Rightarrow> Diverged)
    | r \<Rightarrow> r)"

text \<open>\<open>try: m  except Exception: pass\<close> (the exception is logged and dropped).\<close>

definition swallow :: "(unit, 's) prog \<Rightarrow> (unit, 's) prog" where
  "swallow m = (\<lambda>s. case m s of
      Raised e s' \<Rightarrow> Returned () s'
    | r \<Rightarrow> r)"

definition emit :: "event \<Rightarrow> (unit, 'c FullNode) prog" where
  "emit e = modify (\<lambda>s. s\<lparr>events := events s @ [e]\<rparr>)"

text \<open>\<open>self._state_changed(change)\<close>: the callback is called with the name of the change.\<close>

definition state_changed :: "string \<Rightarrow> (unit, 'c FullNode) prog" where
  "state_changed change = emit (StateChanged change)"

section \<open>The stores\<close>

text \<open>
  Modelled from the spec: the operations of \<open>SyncStore\<close>. \<open>add_peak_peer\<close> records the
  peer's peak and adds the peer to the reverse index of the peak's hash.
\<close>

definition get_peak_peers :: "SyncStore \<Rightarrow> bytes \<Rightarrow> bytes list" where
  "get_peak_peers st header_hash =
     (case map_of (peak_to_peer st) header_hash of None \<Rightarrow> [] | Some peers \<Rightarrow> peers)"

definition add_peak_peer :: "bytes \<Rightarrow> bytes \<Rightarrow> nat \<Rightarrow> nat \<Rightarrow> SyncStore \<Rightarrow> SyncStore" where
  "add_peak_peer header_hash peer_id weight sub_height st =
     st\<lparr>peer_to_peak := AList.update peer_id (header_hash, sub_height, weight) (peer_to_peak st),
        peak_to_peer := AList.update header_hash
          (if peer_id \<in> set (get_peak_peers st header_hash) then get_peak_peers st header_hash
           else get_peak_peers st header_hash @ [peer_id])
          (peak_to_peer st)\<rparr>"

definition get_peer_peaks :: "SyncStore \<Rightarrow> bytes list \<Rightarrow> (bytes \<times> (bytes \<times> nat \<times> nat)) list" where
  "get_peer_peaks st current_peers =
     filter (\<lambda>(peer_id, peak). peer_id \<in> set current_peers) (peer_to_peak st)"

text \<open>The heaviest of the given peers' peaks (the first of them on a tie), \<open>None\<close> without one.\<close>

fun heaviest :: "(bytes \<times> nat \<times> nat) list \<Rightarrow> (bytes \<times> nat \<times> nat) option" where
  "heaviest [] = None"
| "heaviest (p # ps) =
     (case heaviest ps of
        None \<Rightarrow> Some p
      | Some q \<Rightarrow> if snd (snd q) > snd (snd p) then Some q else Some p)"

definition get_heaviest_peak :: "SyncStore \<Rightarrow> bytes list \<Rightarrow> (bytes \<times> nat \<times> nat) option" where
  "get_heaviest_peak st current_peers = heaviest (map snd (get_peer_peaks st current_peers))"

definition set_peak_target :: "bytes \<Rightarrow> nat \<Rightarrow> SyncStore \<Rightarrow> SyncStore" where
  "set_peak_target peak_hash target_sub_height st =
     st\<lparr>sync_target_hash := Some peak_hash, sync_target_height := Some target_sub_height\<rparr>"

definition clear_sync_info :: "SyncStore \<Rightarrow> SyncStore" where
  "clear_sync_info st =
     st\<lparr>peer_to_peak := [], peak_to_peer := [], sync_target_hash := None,
        sync_target_height := None\<rparr>"

text \<open>
  Modelled from the spec: the operations of \<open>FullNodeStore\<close> on the seen set and the
  unfinished blocks. \<open>seen_unfinished_block\<close> tells whether the partial hash was seen and
  adds it when it was not (the source: "Adds the unfinished block to seen, and check if
  it's seen before").
\<close>

definition seen_unfinished_block :: "bytes \<Rightarrow> FullNodeStore \<Rightarrow> bool \<times> FullNodeStore" where
  "seen_unfinished_block temp st =
     (if temp \<in> seen_unfinished_blocks st then (True, st)
      else (False, st\<lparr>seen_unfinished_blocks := insert temp (seen_unfinished_blocks st)\<rparr>))"

definition clear_seen_unfinished_blocks :: "FullNodeStore \<Rightarrow> FullNodeStore" where
  "clear_seen_unfinished_blocks st = st\<lparr>seen_unfinished_blocks := {}\<rparr>"

definition get_unfinished_block :: "FullNodeStore \<Rightarrow> bytes \<Rightarrow> UnfinishedBlock option" where
  "get_unfinished_block st unfinished_reward_hash =
     (case unfinished_blocks st unfinished_reward_hash of
        None \<Rightarrow> None
      | Some (sub_height, block) \<Rightarrow> Some block)"

definition add_unfinished_block :: "nat \<Rightarrow> UnfinishedBlock \<Rightarrow> FullNodeStore \<Rightarrow> FullNodeStore" where
  "add_unfinished_block sub_height unfinished_block st =
     st\<lparr>unfinished_blocks :=
          (unfinished_blocks st)(ub_reward_hash unfinished_block \<mapsto> (sub_height, unfinished_block))\<rparr>"

definition clear_unfinished_blocks_below :: "nat \<Rightarrow> FullNodeStore \<Rightarrow> FullNodeStore" where
  "clear_unfinished_blocks_below sub_height st =
     st\<lparr>unfinished_blocks := (\<lambda>k.
          case unfinished_blocks st k of
            None \<Rightarrow> None
          | Some (h, block) \<Rightarrow> if h < sub_height then None else Some (h, block))\<rparr>"


text \<open>Shorthands for the state.\<close>

definition get_sync_mode :: "'c FullNode \<Rightarrow> bool" where
  "get_sync_mode s = sync_mode (sync_store s)"

definition set_sync_mode :: "bool \<Rightarrow> (unit, 'c FullNode) prog" where
  "set_sync_mode b = modify (\<lambda>s. s\<lparr>sync_store := (sync_store s)\<lparr>sync_mode := b\<rparr>\<rparr>)"

definition update_sync_store :: "(SyncStore \<Rightarrow> SyncStore) \<Rightarrow> (unit, 'c FullNode) prog" where
  "update_sync_store f = modify (\<lambda>s. s\<lparr>sync_store := f (sync_store s)\<rparr>)"

definition update_store :: "(FullNodeStore \<Rightarrow> FullNodeStore) \<Rightarrow> (unit, 'c FullNode) prog" where
  "update_store f = modify (\<lambda>s. s\<lparr>full_node_store := f (full_node_store s)\<rparr>)"

definition update_blockchain :: "('c \<Rightarrow> 'c) \<Rightarrow> (unit, 'c FullNode) prog" where
  "update_blockchain f = modify (\<lambda>s. s\<lparr>blockchain := f (blockchain s)\<rparr>)"

text \<open>\<open>peer.close()\<close>: the connection is closed.\<close>

definition close_peer :: "bytes \<Rightarrow> (unit, 'c FullNode) prog" where
  "close_peer peer_id =
     seq (modify (\<lambda>s. s\<lparr>all_connections :=
            map (\<lambda>(k, con). if k = peer_id then (k, con\<lparr>closed := True\<rparr>) else (k, con))
              (all_connections s)\<rparr>))
         (emit (PeerClosed peer_id))"

definition peer_closed :: "'c FullNode \<Rightarrow> bytes \<Rightarrow> bool" where
  "peer_closed s peer_id =
     (case map_of (all_connections s) peer_id of None \<Rightarrow> True | Some con \<Rightarrow> closed con)"

text \<open>
  \<open>get_peers_with_peaks(peak_hashes)\<close>: the connected peers recorded for one of the peaks;
  a connection is named by its node id.
\<close>

definition get_peers_with_peaks :: "bytes list \<Rightarrow> 'c FullNode \<Rightarrow> bytes list" where
  "get_peers_with_peaks peak_hashes s =
     concat (map (\<lambda>peak_hash.
        filter (\<lambda>peer_hash. peer_hash \<in> fst ` set (all_connections s))
          (get_peak_peers (sync_store s) peak_hash)) peak_hashes)"

text \<open>\<open>range(start, stop, step)\<close> for a positive step.\<close>

definition py_range :: "nat \<Rightarrow> nat \<Rightarrow> nat \<Rightarrow> nat list" where
  "py_range start stop step =
     map (\<lambda>k. start + k * step) [0 ..< (stop - start + step - 1) div step]"


section \<open>src/full_node/full_node.py: handlers\<close>


text \<open>
  The loop of \<open>send_peak_to_timelords\<close>: walk back from the peak to a challenge sub-block
  or the first sub-block of a sub-slot. A missing record raises \<open>KeyError\<close>; the walk need
  not end.
\<close>

partial_function (option) walk_to_challenge_sub_block ::
  "'c Env \<Rightarrow> 'c \<Rightarrow> SubBlockRecord \<Rightarrow> (py_error + SubBlockRecord) option" where
  "walk_to_challenge_sub_block env c cur =
     (if \<not> is_challenge_sub_block (cns env) cur \<and> \<not> sbr_first_in_sub_slot cur then
        (case sub_block_record (bc env) c (sbr_prev_hash cur) of
           None \<Rightarrow> Some (Inl KeyError)
         | Some prev \<Rightarrow> walk_to_challenge_sub_block env c prev)
      else Some (Inr cur))"

definition lift_walk :: "(py_error + 'a) option \<Rightarrow> ('a, 's) prog" where
  "lift_walk r = (case r of None \<Rightarrow> diverge | Some (Inl e) \<Rightarrow> raise e | Some (Inr x) \<Rightarrow> ret x)"

definition send_peak_to_timelords :: "'c Env \<Rightarrow> (unit, 'c FullNode) prog" where
  "send_peak_to_timelords env =
     bind (gets blockchain) (\<lambda>c.
       case get_full_peak (bc env) c of
         None \<Rightarrow> ret ()
       | Some peak_block \<Rightarrow>
          (case sub_block_record (bc env) c (fb_header_hash peak_block) of
             None \<Rightarrow> raise KeyError
           | Some peak \<Rightarrow>
              (let difficulty = get_next_difficulty (bc env) c (sbr_header_hash peak) False;
                   ses = next_sub_epoch_summary_full (cns env) c (sbr_required_iters peak) peak_block;
                   recent_rc = get_recent_reward_challenges (bc env) c
               in bind (lift_walk (walk_to_challenge_sub_block env c peak)) (\<lambda>cur.
                    let last_csb_or_eos =
                          (if is_challenge_sub_block (cns env) cur then sbr_total_iters cur
                           else ip_sub_slot_total_iters (cns env) cur)
                    in emit (SendToAll
                         (TimelordNewPeak (fb_reward_chain_hash peak_block) difficulty
                            (sbr_deficit peak) (sbr_sub_slot_iters peak) ses recent_rc last_csb_or_eos)
                         TIMELORD)))))"

text \<open>
  \<open>peak_post_processing(sub_block, record, fork_height, peer)\<close>. \<open>fork_height\<close> is an \<open>int\<close>:
  \<open>_finish_sync\<close> passes \<open>peak.sub_block_height - 1\<close>. Here and below a \<open>peer\<close> argument is the
  connection's \<open>peer_node_id\<close>, the one attribute of it the handlers use besides its
  requests and \<open>close()\<close>.
\<close>

definition peak_post_processing ::
  "'c Env \<Rightarrow> FullBlock \<Rightarrow> SubBlockRecord \<Rightarrow> int \<Rightarrow> bytes option \<Rightarrow> (unit, 'c FullNode) prog" where
  "peak_post_processing env sub_block record fork_height peer =
     bind (gets blockchain) (\<lambda>c.
     case get_sp_and_ip_sub_slots (bc env) c (fb_header_hash sub_block) of
       None \<Rightarrow> raise AssertionError
     | Some sub_slots \<Rightarrow>
     bind (gets get_sync_mode) (\<lambda>syncing.
     seq (py_when (\<not> syncing) (update_blockchain (clean_sub_block_records (bc env))))
    (bind (gets (\<lambda>s. fns_new_peak (sto env) (blockchain s) (full_node_store s) record
             (fst sub_slots) (snd sub_slots)
             (fork_height \<noteq> int (fb_sub_block_height sub_block) - 1
                \<and> fb_sub_block_height sub_block \<noteq> 0))) (\<lambda>(added_eos, store').
     seq (update_store (\<lambda>_. store'))
    (seq (py_when (snd sub_slots = None) (py_assert (ip_sub_slot_total_iters (cns env) record = 0)))
    (seq (modify (\<lambda>s. s\<lparr>full_node_store :=
            fns_new_signage_point (sto env) (blockchain s) (full_node_store s)
              (sbr_signage_point_index record) record (sbr_sub_slot_iters record)
              (fb_signage_point sub_block)\<rparr>))
    (seq (bind (gets (\<lambda>s. get_peak (bc env) (blockchain s))) (\<lambda>p. emit (MempoolNewPeak p)))
    (seq (case added_eos of
            None \<Rightarrow> ret ()
          | Some eos \<Rightarrow> emit (SendToAll
              (NewSignagePointOrEndOfSubSlot (cc_end_of_slot_vdf_challenge eos) (cc_hash eos) 0
                 (rc_end_of_slot_vdf_challenge eos)) FULL_NODE))
    (seq (py_when (sbr_sub_block_height record mod 1000 = 0)
            (update_store clear_seen_unfinished_blocks))
    (seq (bind (gets get_sync_mode) (\<lambda>syncing'.
            py_when (\<not> syncing')
              (seq (send_peak_to_timelords env)
                 (let msg = FullNodeNewPeak (fb_header_hash sub_block) (fb_sub_block_height sub_block)
                              (fb_weight sub_block) fork_height (fb_unfinished_reward_hash sub_block)
                  in case peer of
                       Some peer_id \<Rightarrow> emit (SendToAllExcept msg FULL_NODE peer_id)
                     | None \<Rightarrow> emit (SendToAll msg FULL_NODE)))))
    (seq (emit (SendToAll
            (WalletNewPeak (fb_header_hash sub_block) (fb_sub_block_height sub_block)
               (fb_weight sub_block) fork_height) WALLET))
         (state_changed ''new_peak''))))))))))))"

text \<open>
  \<open>receive_sub_block_batch(blocks, peer, fork_point)\<close>. The loop over \<open>enumerate(blocks)\<close>
  carries the index \<open>i\<close>, \<open>advanced_peak\<close> and \<open>fork_height\<close>.
\<close>

fun receive_batch_loop ::
  "'c Env \<Rightarrow> nat option \<Rightarrow> PreValidationResult list \<Rightarrow> nat \<Rightarrow> FullBlock list \<Rightarrow> bool \<Rightarrow> nat option
     \<Rightarrow> (bool \<times> bool \<times> nat option, 'c FullNode) prog" where
  "receive_batch_loop env fork_point pre_validation_results i [] advanced_peak fork_height =
     seq (state_changed ''new_peak'') (ret (True, advanced_peak, fork_height))"
| "receive_batch_loop env fork_point pre_validation_results i (block # rest) advanced_peak fork_height =
     (if i \<ge> length pre_validation_results then raise IndexError
      else if pvr_error (pre_validation_results ! i) \<noteq> None
        then ret (False, advanced_peak, fork_height)
      else
        seq (py_assert (pvr_required_iters (pre_validation_results ! i) \<noteq> None))
       (bind (gets blockchain) (\<lambda>c.
          case receive_block (bc env) c block (pre_validation_results ! i)
                 (if advanced_peak then None else fork_point) of
            ((result, error, fork_height'), c') \<Rightarrow>
        seq (update_blockchain (\<lambda>_. c'))
       (seq (emit (ReceivedBlock (fb_header_hash block) result))
       (case (if result = NEW_PEAK then Some True
              else if result = INVALID_BLOCK \<or> result = DISCONNECTED_BLOCK then None
              else Some advanced_peak) of
          None \<Rightarrow> ret (False, advanced_peak, fork_height')
        | Some advanced_peak' \<Rightarrow>
          (case sub_block_record (bc env) c' (fb_header_hash block) of
             None \<Rightarrow> raise KeyError
           | Some sub_block \<Rightarrow>
               seq (py_when (sbr_sub_epoch_summary_included sub_block \<noteq> None)
                      (emit CreatePrevSubEpochSegments))
                   (receive_batch_loop env fork_point pre_validation_results (Suc i) rest
                      advanced_peak' fork_height')))))))"

definition receive_sub_block_batch ::
  "'c Env \<Rightarrow> FullBlock list \<Rightarrow> bytes \<Rightarrow> nat option \<Rightarrow> (bool \<times> bool \<times> nat option, 'c FullNode) prog" where
  "receive_sub_block_batch env blocks peer fork_point =
     bind (gets blockchain) (\<lambda>c.
       case pre_validate_blocks_multiprocessing (bc env) c blocks of
         None \<Rightarrow> ret (False, False, None)
       | Some pre_validation_results \<Rightarrow>
           receive_batch_loop env fork_point pre_validation_results 0 blocks False (Some 0))"

text \<open>
  \<open>respond_sub_block(respond_sub_block, peer)\<close>; the argument is the \<open>sub_block\<close> of the
  message. The first stage ends with \<open>True\<close> where the source returns inside the lock.
\<close>

definition respond_sub_block ::
  "'c Env \<Rightarrow> FullBlock \<Rightarrow> bytes option \<Rightarrow> (Message option, 'c FullNode) prog" where
  "respond_sub_block env sub_block0 peer =
     bind (gets get_sync_mode) (\<lambda>syncing.
     if syncing then ret None
     else
       (let header_hash = fb_foliage_hash sub_block0 in
        bind (gets blockchain) (\<lambda>c.
        if contains_sub_block (bc env) c header_hash then ret None
        else
          bind (gets full_node_store) (\<lambda>st.
          (let sub_block =
                 (if fb_transactions_generator sub_block0 = None then
                    (case get_unfinished_block st (fb_unfinished_reward_hash sub_block0) of
                       None \<Rightarrow> sub_block0
                     | Some unf_block \<Rightarrow>
                         if ub_transactions_generator unf_block \<noteq> None
                         then sub_block0\<lparr>fb_transactions_generator := ub_transactions_generator unf_block\<rparr>
                         else sub_block0)
                  else sub_block0)
           in
           case pre_validate_blocks_multiprocessing (bc env) c [sub_block] of
             None \<Rightarrow> raise ValueError
           | Some [] \<Rightarrow> raise IndexError
           | Some (r0 # _) \<Rightarrow>
               bind (case pvr_error r0 of
                       Some e \<Rightarrow>
                         if e = INVALID_PREV_BLOCK_HASH
                         then ret (DISCONNECTED_BLOCK, Some INVALID_PREV_BLOCK_HASH, None)
                         else raise ValueError
                     | None \<Rightarrow>
                         (case receive_block (bc env) c sub_block r0 None of
                            (res, c') \<Rightarrow>
                              seq (update_blockchain (\<lambda>_. c'))
                             (seq (emit (ReceivedBlock (fb_header_hash sub_block) (fst res)))
                                  (ret res))))
                 (\<lambda>(added, error_code, fork_height).
               bind (case added of
                       ALREADY_HAVE_BLOCK \<Rightarrow> ret True
                     | INVALID_BLOCK \<Rightarrow>
                         (case error_code of
                            None \<Rightarrow> raise AssertionError
                          | Some e \<Rightarrow> raise (ConsensusError e))
                     | DISCONNECTED_BLOCK \<Rightarrow> ret True
                     | NEW_PEAK \<Rightarrow>
                         bind (gets (\<lambda>s. get_peak (bc env) (blockchain s))) (\<lambda>new_peak.
                           case (new_peak, fork_height) of
                             (Some np, Some fh) \<Rightarrow>
                               seq (peak_post_processing env sub_block np (int fh) peer) (ret False)
                           | _ \<Rightarrow> raise AssertionError)
                     | ADDED_AS_ORPHAN \<Rightarrow> ret False)
                 (\<lambda>returned.
               if returned then ret None
               else
                 bind (gets (\<lambda>s. get_peak (bc env) (blockchain s))) (\<lambda>peak.
                   case peak of
                     None \<Rightarrow> raise AssertionError
                   | Some peak \<Rightarrow>
                      (let clear_height = nat (max 0 (int (sbr_sub_block_height peak) - 50)) in
                       seq (update_store (\<lambda>st. fns_clear_candidate_blocks_below (sto env) st clear_height))
                      (seq (update_store (clear_unfinished_blocks_below clear_height))
                      (seq (bind (gets get_sync_mode) (\<lambda>syncing'.
                              py_when (sbr_sub_block_height peak mod 1000 = 0 \<and> \<not> syncing')
                                (update_sync_store clear_sync_info)))
                      (seq (state_changed ''sub_block'') (ret None)))))))))))))"

text \<open>
  \<open>short_sync_backtrack(peer, peak_sub_height, target_sub_height)\<close>. The \<open>while\<close> loop only
  reads the blockchain and asks the peer; it ends since \<open>curr_sub_height\<close> goes down.
\<close>

function backtrack_fetch ::
  "'c Env \<Rightarrow> 'c \<Rightarrow> bytes \<Rightarrow> int \<Rightarrow> int \<Rightarrow> FullBlock list \<Rightarrow> py_error + (bool \<times> FullBlock list)" where
  "backtrack_fetch env c peer peak_sub_height cur_sub_height responses =
     (if cur_sub_height > peak_sub_height - 5 then
        (case request_sub_block (net env) peer (nat cur_sub_height) True of
           Some (RespondSubBlock cur) \<Rightarrow>
             if contains_sub_block (bc env) c (fb_prev_header_hash cur) \<or> cur_sub_height = 0
             then Inr (True, responses @ [cur])
             else backtrack_fetch env c peer peak_sub_height (cur_sub_height - 1) (responses @ [cur])
         | _ \<Rightarrow> Inl ValueError)
      else Inr (False, responses))"
  by pat_completeness auto
termination
  by (relation "measure (\<lambda>(env, c, peer, peak_sub_height, cur_sub_height, responses).
        nat (cur_sub_height - (peak_sub_height - 5)))") auto

fun respond_all :: "'c Env \<Rightarrow> FullBlock list \<Rightarrow> (unit, 'c FullNode) prog" where
  "respond_all env [] = ret ()"
| "respond_all env (response # rest) =
     bind (respond_sub_block env response None) (\<lambda>_. respond_all env rest)"

definition short_sync_backtrack :: "'c Env \<Rightarrow> bytes \<Rightarrow> nat \<Rightarrow> nat \<Rightarrow> (bool, 'c FullNode) prog" where
  "short_sync_backtrack env peer peak_sub_height target_sub_height =
     bind (gets blockchain) (\<lambda>c.
       case backtrack_fetch env c peer (int peak_sub_height) (int target_sub_height) [] of
         Inl e \<Rightarrow> raise e
       | Inr (found_fork_point, responses) \<Rightarrow>
           seq (py_when found_fork_point (respond_all env (rev responses)))
               (ret found_fork_point))"

text \<open>
  \<open>short_sync_batch(peer, start_sub_height, target_sub_height)\<close>. A \<open>RejectSubBlocks\<close> answer
  is a true value without \<open>sub_blocks\<close>: reading the attribute raises.
\<close>

fun short_sync_batch_loop ::
  "'c Env \<Rightarrow> bytes \<Rightarrow> nat \<Rightarrow> nat \<Rightarrow> nat list \<Rightarrow> (unit, 'c FullNode) prog" where
  "short_sync_batch_loop env peer target_sub_height batch_size [] = ret ()"
| "short_sync_batch_loop env peer target_sub_height batch_size (sub_height # rest) =
     (let end_height = min target_sub_height (sub_height + batch_size) in
      case request_sub_blocks (net env) peer sub_height end_height True of
        None \<Rightarrow> raise ValueError
      | Some (RejectSubBlocks a b) \<Rightarrow> raise AttributeError
      | Some (RespondSubBlocks sub_blocks) \<Rightarrow>
          bind (receive_sub_block_batch env sub_blocks peer None)
            (\<lambda>(success, advanced_peak, fork_height).
              if \<not> success then raise ValueError
              else
                seq (py_when advanced_peak
                       (bind (gets blockchain) (\<lambda>c.
                          case (get_peak (bc env) c, get_full_peak (bc env) c, fork_height) of
                            (Some peak, Some peak_fb, Some fh) \<Rightarrow>
                              peak_post_processing env peak_fb peak (int fh) (Some peer)
                          | _ \<Rightarrow> raise AssertionError)))
                    (short_sync_batch_loop env peer target_sub_height batch_size rest)))"

definition batch_syncing_remove :: "bytes \<Rightarrow> (unit, 'c FullNode) prog" where
  "batch_syncing_remove peer =
     bind (gets (\<lambda>s. peer \<in> batch_syncing (sync_store s))) (\<lambda>present.
       if present
       then update_sync_store (\<lambda>st. st\<lparr>batch_syncing := batch_syncing st - {peer}\<rparr>)
       else raise KeyError)"

definition short_sync_batch :: "'c Env \<Rightarrow> bytes \<Rightarrow> nat \<Rightarrow> nat \<Rightarrow> (bool, 'c FullNode) prog" where
  "short_sync_batch env peer start_sub_height target_sub_height =
     bind (if start_sub_height > 0 then
             (case request_sub_block (net env) peer start_sub_height False of
                Some (RespondSubBlock first) \<Rightarrow>
                  bind (gets blockchain) (\<lambda>c.
                    ret (\<not> contains_sub_block (bc env) c (fb_prev_header_hash first)))
              | _ \<Rightarrow> raise ValueError)
           else ret False)
       (\<lambda>not_connected.
     if not_connected then ret False
     else
       (let batch_size = MAX_BLOCK_COUNT_PER_REQUESTS (constants env) in
        bind (gets (\<lambda>s. peer \<in> batch_syncing (sync_store s))) (\<lambda>already.
        if already then ret True
        else
          seq (update_sync_store (\<lambda>st. st\<lparr>batch_syncing := insert peer (batch_syncing st)\<rparr>))
         (seq (on_exception
                 (if batch_size = 0 then raise ValueError
                  else short_sync_batch_loop env peer target_sub_height batch_size
                         (py_range start_sub_height (target_sub_height + 1) batch_size))
                 (batch_syncing_remove peer))
         (seq (batch_syncing_remove peer) (ret True))))))"

text \<open>\<open>new_peak(request, peer)\<close>. Creating the long-sync task is the event \<open>SyncTaskCreated\<close>.\<close>

record NewPeak =
  np_header_hash :: bytes
  np_sub_block_height :: nat
  np_weight :: nat
  np_fork_point_with_previous_peak :: nat
  np_unfinished_reward_block_hash :: bytes

definition new_peak :: "'c Env \<Rightarrow> NewPeak \<Rightarrow> bytes \<Rightarrow> (unit, 'c FullNode) prog" where
  "new_peak env request peer =
     seq (update_sync_store
            (add_peak_peer (np_header_hash request) peer (np_weight request) (np_sub_block_height request)))
    (bind (gets blockchain) (\<lambda>c.
     if contains_sub_block (bc env) c (np_header_hash request) then ret ()
     else
       (let peak = get_peak (bc env) c;
            cur_peak_sub_height = (case peak of None \<Rightarrow> 0 | Some p \<Rightarrow> sbr_sub_block_height p)
        in
        if (case peak of None \<Rightarrow> False | Some p \<Rightarrow> sbr_weight p > np_weight request) then ret ()
        else
          bind (gets get_sync_mode) (\<lambda>syncing.
          if syncing then
            bind (gets sync_store) (\<lambda>st.
              case (sync_target_hash st, sync_target_height st) of
                (Some peak_sync_hash, Some peak_sync_height) \<Rightarrow>
                  if np_header_hash request \<noteq> peak_sync_hash then
                    (let peak_peers = get_peak_peers st peak_sync_hash in
                     if peer \<notin> set peak_peers then
                       (case request_sub_block (net env) peer peak_sync_height False of
                          Some (RespondSubBlock target_peak_response) \<Rightarrow>
                            update_sync_store
                              (add_peak_peer peak_sync_hash peer (fb_weight target_peak_response)
                                 peak_sync_height)
                        | _ \<Rightarrow> ret ())
                     else ret ())
                  else ret ()
              | _ \<Rightarrow> ret ())
          else
            bind (if np_sub_block_height request
                       \<le> cur_peak_sub_height + short_sync_sub_blocks_behind_threshold (config env)
                  then short_sync_backtrack env peer cur_peak_sub_height (np_sub_block_height request)
                  else ret False)
              (\<lambda>backtracked.
            if backtracked then ret ()
            else if np_sub_block_height request < WEIGHT_PROOF_RECENT_BLOCKS (constants env) then
              bind (short_sync_batch env peer 0 (np_sub_block_height request)) (\<lambda>_. ret ())
            else
              bind (if np_sub_block_height request
                         < cur_peak_sub_height + sync_sub_blocks_behind_threshold (config env)
                    then short_sync_batch env peer (nat (max (int cur_peak_sub_height - 20) 0))
                           (np_sub_block_height request)
                    else ret False)
                (\<lambda>batched.
              if batched then ret () else emit SyncTaskCreated))))))"

text \<open>
  \<open>sync_from_fork_point(fork_point_height, target_peak_sb_height, peak_hash)\<close>. The inner
  loop over \<open>peers_with_peak\<close> returns \<open>batch_added\<close>, \<open>advanced_peak\<close> and \<open>to_remove\<close>.
\<close>

fun try_peers ::
  "'c Env \<Rightarrow> nat \<Rightarrow> nat \<Rightarrow> nat \<Rightarrow> bytes list \<Rightarrow> bool \<Rightarrow> bytes list
     \<Rightarrow> (bool \<times> bool \<times> bytes list, 'c FullNode) prog" where
  "try_peers env fork_point_height start_height end_height [] advanced_peak to_remove =
     ret (False, advanced_peak, to_remove)"
| "try_peers env fork_point_height start_height end_height (peer # rest) advanced_peak to_remove =
     bind (gets (\<lambda>s. peer_closed s peer)) (\<lambda>is_closed.
     if is_closed then
       try_peers env fork_point_height start_height end_height rest advanced_peak (to_remove @ [peer])
     else
       (case request_sub_blocks (net env) peer start_height end_height True of
          None \<Rightarrow> try_peers env fork_point_height start_height end_height rest advanced_peak to_remove
        | Some (RejectSubBlocks a b) \<Rightarrow>
            try_peers env fork_point_height start_height end_height rest advanced_peak to_remove
        | Some (RespondSubBlocks sub_blocks) \<Rightarrow>
            bind (receive_sub_block_batch env sub_blocks peer
                    (if advanced_peak then None else Some fork_point_height))
              (\<lambda>(success, advanced_peak', fh).
                if \<not> success then
                  seq (close_peer peer)
                      (try_peers env fork_point_height start_height end_height rest advanced_peak'
                         to_remove)
                else ret (True, advanced_peak', to_remove))))"

fun sync_windows ::
  "'c Env \<Rightarrow> nat \<Rightarrow> nat \<Rightarrow> bytes \<Rightarrow> nat \<Rightarrow> nat list \<Rightarrow> bytes list \<Rightarrow> bool \<Rightarrow> (unit, 'c FullNode) prog" where
  "sync_windows env fork_point_height target_peak_sb_height peak_hash batch_size []
     peers_with_peak advanced_peak = ret ()"
| "sync_windows env fork_point_height target_peak_sb_height peak_hash batch_size (i # rest)
     peers_with_peak advanced_peak =
     (let start_height = i;
          end_height = min target_peak_sb_height (start_height + batch_size)
      in
      bind (try_peers env fork_point_height start_height end_height peers_with_peak advanced_peak [])
        (\<lambda>(batch_added, advanced_peak', to_remove).
      bind (gets (\<lambda>s. get_peak (bc env) (blockchain s))) (\<lambda>peak.
      case peak of
        None \<Rightarrow> raise AssertionError
      | Some peak \<Rightarrow>
          seq (emit (SendToAll
                 (WalletNewPeak (sbr_header_hash peak) (sbr_sub_block_height peak) (sbr_weight peak)
                    (max (int (sbr_sub_block_height peak) - 1) 0)) WALLET))
         (bind (gets (\<lambda>s. peers_changed (sync_store s))) (\<lambda>changed.
          bind (if changed then
                  bind (gets (get_peers_with_peaks [peak_hash])) (\<lambda>peers.
                    seq (update_sync_store (\<lambda>st. st\<lparr>peers_changed := False\<rparr>)) (ret peers))
                else ret (fold remove1 to_remove peers_with_peak))
            (\<lambda>peers_with_peak'.
          if \<not> batch_added then ret ()
          else
            seq (update_blockchain (\<lambda>c. clean_sub_block_record (bc env) c
                   (min (int end_height - int (SUB_BLOCKS_CACHE_SIZE (constants env)))
                        (int (sbr_sub_block_height peak) - int (SUB_BLOCKS_CACHE_SIZE (constants env))))))
                (sync_windows env fork_point_height target_peak_sb_height peak_hash batch_size rest
                   peers_with_peak' advanced_peak')))))))"

definition sync_from_fork_point :: "'c Env \<Rightarrow> nat \<Rightarrow> nat \<Rightarrow> bytes \<Rightarrow> (unit, 'c FullNode) prog" where
  "sync_from_fork_point env fork_point_height target_peak_sb_height peak_hash =
     bind (gets (get_peers_with_peaks [peak_hash])) (\<lambda>peers_with_peak.
       if length peers_with_peak = 0 then raise RuntimeError
       else
         (let batch_size = MAX_BLOCK_COUNT_PER_REQUESTS (constants env) in
          if batch_size = 0 then raise ValueError
          else sync_windows env fork_point_height target_peak_sb_height peak_hash batch_size
                 (py_range fork_point_height target_peak_sb_height batch_size) peers_with_peak False))"

text \<open>\<open>_finish_sync()\<close>. A peak without a full peak block fails inside \<open>peak_post_processing\<close>.\<close>

definition finish_sync :: "'c Env \<Rightarrow> (unit, 'c FullNode) prog" where
  "finish_sync env =
     seq (set_sync_mode False)
    (seq (state_changed ''sync_mode'')
    (bind (gets server_present) (\<lambda>has_server.
     if \<not> has_server then ret ()
     else
       bind (gets (\<lambda>s. get_peak (bc env) (blockchain s))) (\<lambda>peak.
       seq (update_sync_store clear_sync_info)
      (bind (gets (\<lambda>s. get_full_peak (bc env) (blockchain s))) (\<lambda>peak_fb.
       seq (case peak of
              None \<Rightarrow> ret ()
            | Some p \<Rightarrow>
               (case peak_fb of
                  None \<Rightarrow> raise AttributeError
                | Some fb \<Rightarrow> peak_post_processing env fb p (int (sbr_sub_block_height p) - 1) None))
           (case peak of
              None \<Rightarrow> ret ()
            | Some p \<Rightarrow>
                seq (emit (GetProofOfWeight (sbr_header_hash p))) (state_changed ''sub_block''))))))))"

text \<open>
  \<open>_sync()\<close>, in the order of the source: the wait for peaks (the loop of 200 rounds; the
  sleep between two rounds changes nothing in a run of the handler alone), the choice of the
  target peak and of the weight-proof peer, the weight proof, and the download. \<open>None\<close> from
  the wait is the \<open>return\<close> inside the loop.
\<close>

fun wait_for_peaks ::
  "bytes list \<Rightarrow> nat list \<Rightarrow> bytes list \<Rightarrow> (bytes list option, 'c FullNode) prog" where
  "wait_for_peaks current_peer_ids [] peaks = ret (Some peaks)"
| "wait_for_peaks current_peer_ids (i # rest) peaks =
     bind (gets (\<lambda>s. map (\<lambda>(peer_id, tup). fst tup) (get_peer_peaks (sync_store s) current_peer_ids)))
       (\<lambda>peaks'.
     bind (gets (\<lambda>s. length (get_peers_with_peaks peaks' s) < 3)) (\<lambda>few.
     if few then
       bind (gets shut_down) (\<lambda>stop.
         if stop then ret None else wait_for_peaks current_peer_ids rest peaks')
     else wait_for_peaks current_peer_ids rest peaks'))"

definition current_peer_ids :: "'c FullNode \<Rightarrow> bytes list" where
  "current_peer_ids s = map (\<lambda>(k, ws_con). peer_node_id ws_con) (all_connections s)"

text \<open>Asking every full-node peer for the target block; each answer records the peer.\<close>

fun request_target_block ::
  "'c Env \<Rightarrow> bytes \<Rightarrow> nat \<Rightarrow> nat \<Rightarrow> bytes list \<Rightarrow> (unit, 'c FullNode) prog" where
  "request_target_block env heaviest_peak_hash heaviest_peak_height heaviest_peak_weight [] = ret ()"
| "request_target_block env heaviest_peak_hash heaviest_peak_height heaviest_peak_weight (peer # rest) =
     seq (case request_sub_block (net env) peer heaviest_peak_height True of
            Some (RespondSubBlock target_peak_response) \<Rightarrow>
              update_sync_store
                (add_peak_peer heaviest_peak_hash peer heaviest_peak_weight heaviest_peak_height)
          | _ \<Rightarrow> ret ())
         (request_target_block env heaviest_peak_hash heaviest_peak_height heaviest_peak_weight rest)"

text \<open>\<open>random.choice(seq)\<close> raises \<open>IndexError\<close> on an empty sequence.\<close>

definition random_choice :: "'c Env \<Rightarrow> 'a list \<Rightarrow> ('a, 's) prog" where
  "random_choice env xs =
     (if xs = [] then raise IndexError else ret (xs ! (random_index env mod length xs)))"

definition sync_choose_target ::
  "'c Env \<Rightarrow> ((bytes \<times> nat \<times> nat) \<times> bytes, 'c FullNode) prog" where
  "sync_choose_target env =
     bind (gets (\<lambda>s. get_heaviest_peak (sync_store s) (current_peer_ids s))) (\<lambda>target_peak.
     case target_peak of
       None \<Rightarrow> raise RuntimeError
     | Some (heaviest_peak_hash, heaviest_peak_height, heaviest_peak_weight) \<Rightarrow>
         seq (update_sync_store (set_peak_target heaviest_peak_hash heaviest_peak_height))
        (bind (gets (\<lambda>s. map (\<lambda>(k, peer). peer_node_id peer)
                 (filter (\<lambda>(k, peer). connection_type peer = FULL_NODE) (all_connections s))))
           (\<lambda>peers.
         seq (request_target_block env heaviest_peak_hash heaviest_peak_height heaviest_peak_weight
                peers)
        (bind (gets (get_peers_with_peaks [heaviest_peak_hash])) (\<lambda>peers_with_peak.
         bind (random_choice env peers_with_peak) (\<lambda>weight_proof_peer.
         bind (gets (\<lambda>s. get_peak (bc env) (blockchain s))) (\<lambda>peak.
         if (case peak of None \<Rightarrow> False | Some p \<Rightarrow> heaviest_peak_weight \<le> sbr_weight p)
         then raise ValueError
         else ret ((heaviest_peak_hash, heaviest_peak_height, heaviest_peak_weight),
                   weight_proof_peer))))))))"

definition sync_weight_proof ::
  "'c Env \<Rightarrow> bytes \<times> nat \<times> nat \<Rightarrow> bytes \<Rightarrow> (unit, 'c FullNode) prog" where
  "sync_weight_proof env target_peak weight_proof_peer =
     (case target_peak of (heaviest_peak_hash, heaviest_peak_height, heaviest_peak_weight) \<Rightarrow>
      case request_proof_of_weight (net env) weight_proof_peer heaviest_peak_height
             heaviest_peak_hash of
        Some (RespondProofOfWeight wp) \<Rightarrow>
          if recent_chain_data wp = [] then raise IndexError
          else if rce_sub_block_height (last (recent_chain_data wp)) \<noteq> heaviest_peak_height then
            seq (close_peer weight_proof_peer) (raise RuntimeError)
          else if rce_weight (last (recent_chain_data wp)) \<noteq> heaviest_peak_weight then
            seq (close_peer weight_proof_peer) (raise RuntimeError)
          else
            bind (gets (\<lambda>s. validate_weight_proof (cns env) (blockchain s) wp))
              (\<lambda>(validated, fork_point).
            if \<not> validated then raise ValueError
            else
              seq (update_blockchain (\<lambda>c. warmup (bc env) c fork_point))
                  (sync_from_fork_point env fork_point heaviest_peak_height heaviest_peak_hash))
      | _ \<Rightarrow> seq (close_peer weight_proof_peer) (raise RuntimeError))"

definition sync_body :: "'c Env \<Rightarrow> (unit, 'c FullNode) prog" where
  "sync_body env =
     bind (gets server_present) (\<lambda>has_server.
     if \<not> has_server then raise AttributeError
     else
       bind (gets current_peer_ids) (\<lambda>ids.
       bind (wait_for_peaks ids [0 ..< 200] []) (\<lambda>peaks.
       case peaks of
         None \<Rightarrow> ret ()
       | Some peaks \<Rightarrow>
           bind (sync_choose_target env) (\<lambda>(target_peak, weight_proof_peer).
             sync_weight_proof env target_peak weight_proof_peer))))"

text \<open>
  The \<open>try\<close> statement of \<open>_sync\<close>: every exception of the body is logged and dropped, and
  the \<open>finally\<close> clause runs \<open>_finish_sync\<close> unless the node is shut down.
\<close>

definition sync :: "'c Env \<Rightarrow> (unit, 'c FullNode) prog" where
  "sync env =
     bind (gets get_sync_mode) (\<lambda>syncing.
     if syncing then ret ()
     else
       seq (set_sync_mode True)
      (seq (state_changed ''sync_mode'')
      (seq (swallow (sync_body env))
           (bind (gets shut_down) (\<lambda>stop.
              if stop then ret () else finish_sync env)))))"

text \<open>
  \<open>respond_unfinished_sub_block\<close>: counting the sub-blocks of the sub-slot and deciding
  whether the sub-slot is the first of a new epoch. The \<open>while\<close> loop walks back with
  \<open>try_sub_block\<close> to the first sub-block of the sub-slot; it need not end.
\<close>

partial_function (option) count_sub_blocks_walk ::
  "'c Env \<Rightarrow> 'c \<Rightarrow> SubBlockRecord option \<Rightarrow> nat \<Rightarrow> (SubBlockRecord option \<times> nat) option" where
  "count_sub_blocks_walk env c cur num_sub_blocks_in_ss =
     (case cur of
        None \<Rightarrow> Some (None, num_sub_blocks_in_ss)
      | Some r \<Rightarrow>
          if sbr_first_in_sub_slot r then Some (cur, num_sub_blocks_in_ss)
          else count_sub_blocks_walk env c (try_sub_block (bc env) c (sbr_prev_hash r))
                 (num_sub_blocks_in_ss + 1))"

definition new_difficulty_at :: "SubBlockRecord option \<Rightarrow> bool" where
  "new_difficulty_at cur =
     (case cur of
        None \<Rightarrow> False
      | Some r \<Rightarrow>
          sbr_first_in_sub_slot r
          \<and> (case sbr_sub_epoch_summary_included r of
                None \<Rightarrow> False
              | Some ses \<Rightarrow> ses_new_difficulty ses \<noteq> None))"

text \<open>The pair \<open>(num_sub_blocks_in_ss, first_ss_new_epoch)\<close> of \<open>respond_unfinished_sub_block\<close>.\<close>

definition unfinished_sub_slot_info ::
  "'c Env \<Rightarrow> 'c \<Rightarrow> UnfinishedBlock \<Rightarrow> SubBlockRecord option \<Rightarrow> (nat \<times> bool) option" where
  "unfinished_sub_slot_info env c block prev_sb =
     (if length (ub_finished_sub_slots block) > 0 then
        Some (1, cc_new_difficulty (hd (ub_finished_sub_slots block)) \<noteq> None)
      else
        (case count_sub_blocks_walk env c (try_sub_block (bc env) c (ub_prev_header_hash block)) 2 of
           None \<Rightarrow> None
         | Some (cur, num_sub_blocks_in_ss) \<Rightarrow>
             if new_difficulty_at cur then Some (num_sub_blocks_in_ss, True)
             else
               (case prev_sb of
                  None \<Rightarrow> Some (num_sub_blocks_in_ss, False)
                | Some prev \<Rightarrow>
                   (let prev_prev = try_sub_block (bc env) c (sbr_prev_hash prev);
                        can_finish_epoch = snd (can_finish_sub_and_full_epoch (cns env) c
                           (sbr_sub_block_height prev) (sbr_deficit prev)
                           (if prev_prev \<noteq> None then Some (sbr_header_hash prev) else None) False)
                    in Some (num_sub_blocks_in_ss, can_finish_epoch)))))"

definition lift_option :: "'a option \<Rightarrow> ('a, 's) prog" where
  "lift_option r = (case r of None \<Rightarrow> diverge | Some x \<Rightarrow> ret x)"

text \<open>
  \<open>respond_unfinished_sub_block(respond_unfinished_sub_block, peer, farmed_block)\<close>; the
  first argument is the \<open>unfinished_sub_block\<close> of the message. \<open>farmed_block\<close> only chooses
  the log line.
\<close>

definition respond_unfinished_sub_block ::
  "'c Env \<Rightarrow> UnfinishedBlock \<Rightarrow> bytes option \<Rightarrow> bool \<Rightarrow> (unit, 'c FullNode) prog" where
  "respond_unfinished_sub_block env block peer farmed_block =
     bind (gets (\<lambda>s. seen_unfinished_block (ub_partial_hash block) (full_node_store s)))
       (\<lambda>(seen, store').
     seq (update_store (\<lambda>_. store'))
    (if seen then ret ()
     else
       bind (gets full_node_store) (\<lambda>st.
       if get_unfinished_block st (ub_reward_hash block) \<noteq> None then ret ()
       else
         bind (gets blockchain) (\<lambda>c.
         if ub_prev_header_hash block \<noteq> GENESIS_PREV_HASH (constants env)
            \<and> \<not> contains_sub_block (bc env) c (ub_prev_header_hash block)
         then ret ()
         else if (case get_peak (bc env) c of
                    None \<Rightarrow> False
                  | Some peak \<Rightarrow> ub_total_iters block < sp_total_iters (cns env) peak)
         then ret ()
         else
           bind (if ub_prev_header_hash block = GENESIS_PREV_HASH (constants env) then ret None
                 else (case sub_block_record (bc env) c (ub_prev_header_hash block) of
                         None \<Rightarrow> raise KeyError
                       | Some r \<Rightarrow> ret (Some r)))
             (\<lambda>prev_sb.
           (let is_overflow = is_overflow_sub_block (cns env) (ub_signage_point_index block) in
            bind (lift_option (unfinished_sub_slot_info env c block prev_sb))
              (\<lambda>(num_sub_blocks_in_ss, first_ss_new_epoch).
            if is_overflow \<and> first_ss_new_epoch then ret ()
            else if num_sub_blocks_in_ss > MAX_SUB_SLOT_SUB_BLOCKS (constants env) then ret ()
            else
              (case validate_unfinished_block (bc env) c block of
                 (required_iters, Some error_code) \<Rightarrow> raise (ConsensusError error_code)
               | (None, None) \<Rightarrow> raise AssertionError
               | (Some required_iters, None) \<Rightarrow>
                   bind (gets full_node_store) (\<lambda>st'.
                   if get_unfinished_block st' (ub_reward_hash block) \<noteq> None then ret ()
                   else
                     bind (if ub_prev_header_hash block = GENESIS_PREV_HASH (constants env)
                           then ret 0
                           else (case sub_block_record (bc env) c (ub_prev_header_hash block) of
                                   None \<Rightarrow> raise KeyError
                                 | Some r \<Rightarrow> ret (sbr_sub_block_height r + 1)))
                       (\<lambda>sub_height.
                     (let ses = next_sub_epoch_summary_unfinished (cns env) c required_iters block in
                      seq (update_store (add_unfinished_block sub_height block))
                     (case get_sub_slot_iters_and_difficulty (cns env) c block prev_sb of
                        (sub_slot_iters, difficulty) \<Rightarrow>
                      bind (if ub_signage_point_index block = 0 then
                              bind (gets full_node_store) (\<lambda>st''.
                                case fns_get_sub_slot (sto env) st'' (ub_pos_ss_cc_challenge_hash block) of
                                  None \<Rightarrow>
                                    if ub_pos_ss_cc_challenge_hash block = FIRST_CC_CHALLENGE (constants env)
                                    then ret (Some (FIRST_RC_CHALLENGE (constants env)))
                                    else ret None
                                | Some res \<Rightarrow> ret (Some (rc_hash (fst res))))
                            else
                              (case ub_rc_sp_vdf_challenge block of
                                 None \<Rightarrow> raise AssertionError
                               | Some challenge \<Rightarrow> ret (Some challenge)))
                        (\<lambda>rc_prev.
                      case rc_prev of
                        None \<Rightarrow> ret ()
                      | Some rc_prev \<Rightarrow>
                          seq (emit (SendToAll
                                 (TimelordNewUnfinishedSubBlock (ub_reward_hash block) difficulty
                                    sub_slot_iters (ub_foliage block) ses rc_prev) TIMELORD))
                         (seq (let msg = FullNodeNewUnfinishedSubBlock (ub_reward_hash block) in
                               case peer of
                                 Some peer_id \<Rightarrow> emit (SendToAllExcept msg FULL_NODE peer_id)
                               | None \<Rightarrow> emit (SendToAll msg FULL_NODE))
                              (state_changed ''unfinished_sub_block'')))))))))))))))"











text \<open>The results of the calls of \<open>receive_block\<close> that a trace records, in order.\<close>

fun received_results :: "event list \<Rightarrow> ReceiveBlockResult list" where
  "received_results [] = []"
| "received_results (ReceivedBlock header_hash result # rest) = result # received_results rest"
| "received_results (e # rest) = received_results rest"

text \<open>
  What \<open>receive_sub_block_batch\<close> relies on in the \<open>Blockchain\<close>: pre-validation answers with
  one result per block, a result without an error carries \<open>required_iters\<close>, and the record
  of a block that \<open>receive_block\<close> did not reject can be looked up afterwards.
\<close>

definition blockchain_contract :: "'c Env \<Rightarrow> bool" where
  "blockchain_contract env =
     ((\<forall>c blocks rs. pre_validate_blocks_multiprocessing (bc env) c blocks = Some rs \<longrightarrow>
          length rs = length blocks
          \<and> (\<forall>r \<in> set rs. pvr_error r = None \<longrightarrow> pvr_required_iters r \<noteq> None))
      \<and> (\<forall>c b r fork_point result error fork_height c'.
            receive_block (bc env) c b r fork_point = ((result, error, fork_height), c')
            \<and> result \<noteq> INVALID_BLOCK \<and> result \<noteq> DISCONNECTED_BLOCK \<longrightarrow>
            sub_block_record (bc env) c' (fb_header_hash b) \<noteq> None))"

section \<open>A small node\<close>

text \<open>
  A concrete blockchain, environment and node state on which the handlers can be run. The
  blockchain is the list of its blocks, the peak first; a block is accepted as the new peak
  when it is heavier than the peak and its parent is known.
\<close>

definition sample_block :: "bytes \<Rightarrow> bytes \<Rightarrow> nat \<Rightarrow> nat \<Rightarrow> FullBlock" where
  "sample_block header_hash prev_hash height weight =
     \<lparr>fb_header_hash = header_hash, fb_foliage_hash = header_hash, fb_prev_header_hash = prev_hash,
      fb_sub_block_height = height, fb_weight = weight, fb_transactions_generator = Some [],
      fb_unfinished_reward_hash = 1 # header_hash, fb_reward_chain_hash = 2 # header_hash,
      fb_finished_sub_slots = [], fb_foliage_timestamp = Some 1000, fb_pool_target = ([], 0),
      fb_pool_signature = [], fb_pool_public_key = [], fb_signage_point = 0\<rparr>"

definition sample_record :: "FullBlock \<Rightarrow> SubBlockRecord" where
  "sample_record b =
     \<lparr>sbr_header_hash = fb_header_hash b, sbr_prev_hash = fb_prev_header_hash b,
      sbr_sub_block_height = fb_sub_block_height b, sbr_weight = fb_weight b, sbr_total_iters = 0,
      sbr_deficit = 0, sbr_signage_point_index = 0, sbr_required_iters = 1, sbr_sub_slot_iters = 1,
      sbr_first_in_sub_slot = True, sbr_reward_infusion_new_challenge = fb_reward_chain_hash b,
      sbr_sub_epoch_summary_included = None\<rparr>"

definition sample_receive_block ::
  "FullBlock list \<Rightarrow> FullBlock \<Rightarrow> PreValidationResult \<Rightarrow> nat option
     \<Rightarrow> (ReceiveBlockResult \<times> Err option \<times> nat option) \<times> FullBlock list" where
  "sample_receive_block c b r fork_point =
     (if fb_header_hash b \<in> set (map fb_header_hash c) then ((ALREADY_HAVE_BLOCK, None, None), c)
      else case c of
        [] \<Rightarrow> ((NEW_PEAK, None, Some 0), [b])
      | p # rest \<Rightarrow>
          if fb_prev_header_hash b \<notin> set (map fb_header_hash c)
            then ((DISCONNECTED_BLOCK, Some INVALID_PREV_BLOCK_HASH, None), c)
          else if fb_weight b > fb_weight p
            then ((NEW_PEAK, None, Some (fb_sub_block_height b - 1)), b # c)
          else ((ADDED_AS_ORPHAN, None, None), p # b # rest))"

definition sample_blockchain_ops :: "FullBlock list BlockchainOps" where
  "sample_blockchain_ops =
     \<lparr>contains_sub_block = (\<lambda>c h. h \<in> set (map fb_header_hash c)),
      get_peak = (\<lambda>c. case c of [] \<Rightarrow> None | p # rest \<Rightarrow> Some (sample_record p)),
      get_full_peak = (\<lambda>c. case c of [] \<Rightarrow> None | p # rest \<Rightarrow> Some p),
      get_block_peak = (\<lambda>c. case c of [] \<Rightarrow> None | p # rest \<Rightarrow> Some p),
      sub_block_record = (\<lambda>c h. map_option sample_record (find (\<lambda>b. fb_header_hash b = h) c)),
      try_sub_block = (\<lambda>c h. map_option sample_record (find (\<lambda>b. fb_header_hash b = h) c)),
      pre_validate_blocks_multiprocessing =
        (\<lambda>c blocks. Some (map (\<lambda>b. \<lparr>pvr_error = None, pvr_required_iters = Some 1\<rparr>) blocks)),
      receive_block = sample_receive_block,
      validate_unfinished_block = (\<lambda>c b. (Some 1, None)),
      get_next_difficulty = (\<lambda>c h new_slot. 1),
      get_next_slot_iters = (\<lambda>c h new_slot. 1),
      get_sp_and_ip_sub_slots = (\<lambda>c h. Some (None, None)),
      get_recent_reward_challenges = (\<lambda>c. []),
      clean_sub_block_records = (\<lambda>c. c),
      clean_sub_block_record = (\<lambda>c below. c),
      warmup = (\<lambda>c fork_point. c)\<rparr>"

definition sample_eos :: EndOfSubSlotBundle where
  "sample_eos = \<lparr>cc_new_difficulty = Some 5, cc_hash = [3], cc_end_of_slot_vdf_challenge = [4],
     rc_hash = [5], rc_end_of_slot_vdf_challenge = [6]\<rparr>"

definition sample_consensus_ops :: "FullBlock list ConsensusOps" where
  "sample_consensus_ops =
     \<lparr>is_overflow_sub_block = (\<lambda>signage_point_index. signage_point_index \<ge> 3),
      can_finish_sub_and_full_epoch = (\<lambda>c height deficit prev_hash can_finish_soon. (False, False)),
      next_sub_epoch_summary_full = (\<lambda>c required_iters b. None),
      next_sub_epoch_summary_unfinished = (\<lambda>c required_iters b. None),
      get_sub_slot_iters_and_difficulty = (\<lambda>c b prev_sb. (1, 1)),
      calculate_sp_iters = (\<lambda>sub_slot_iters signage_point_index. signage_point_index),
      unfinished_block_to_full_block = (\<lambda>c b request sub_slots prev_sb sp_total_iters difficulty.
         (sample_block (ub_reward_hash b) (ub_prev_header_hash b) 1 1)
           \<lparr>fb_finished_sub_slots := sub_slots\<rparr>),
      sp_total_iters = (\<lambda>r. 0),
      ip_sub_slot_total_iters = (\<lambda>r. 0),
      is_challenge_sub_block = (\<lambda>r. True),
      validate_weight_proof = (\<lambda>c wp. (True, 0)),
      AugSchemeMPL_verify = (\<lambda>pk msg sig. True)\<rparr>"

definition sample_store_ops :: "FullBlock list StoreOps" where
  "sample_store_ops =
     \<lparr>fns_new_peak = (\<lambda>c st r ss0 ss1 fork. (None, st)),
      fns_new_signage_point = (\<lambda>c st index r sub_slot_iters sp. st),
      fns_get_sub_slot = (\<lambda>st h. None),
      fns_get_finished_sub_slots = (\<lambda>c st prev_sb h overflow. [sample_eos]),
      fns_clear_candidate_blocks_below = (\<lambda>st h. st)\<rparr>"

definition sample_network :: Network where
  "sample_network =
     \<lparr>request_sub_block = (\<lambda>peer height include_transactions.
         if height = 7 then Some (RespondSubBlock (sample_block [8] [7] 7 70)) else None),
      request_sub_blocks = (\<lambda>peer start_height end_height include_transactions. None),
      request_proof_of_weight = (\<lambda>peer height header_hash.
         Some (RespondProofOfWeight
           \<lparr>recent_chain_data = [\<lparr>rce_sub_block_height = height + 1, rce_weight = 0\<rparr>],
            wp_payload = 0\<rparr>))\<rparr>"

definition sample_env :: "FullBlock list Env" where
  "sample_env =
     \<lparr>constants =
        \<lparr>MAX_BLOCK_COUNT_PER_REQUESTS = 32, WEIGHT_PROOF_RECENT_BLOCKS = 500,
         SUB_BLOCKS_CACHE_SIZE = 100, MAX_SUB_SLOT_SUB_BLOCKS = 128, GENESIS_PREV_HASH = [0],
         FIRST_CC_CHALLENGE = [0], FIRST_RC_CHALLENGE = [0],
         GENESIS_PRE_FARM_POOL_PUZZLE_HASH = [0]\<rparr>,
      config = \<lparr>short_sync_sub_blocks_behind_threshold = 5, sync_sub_blocks_behind_threshold = 100\<rparr>,
      bc = sample_blockchain_ops, cns = sample_consensus_ops, sto = sample_store_ops,
      net = sample_network, now = 2000, random_index = 0\<rparr>"

definition sample_chain :: "FullBlock list" where
  "sample_chain = [sample_block [2] [1] 1 10, sample_block [1] [0] 0 1]"

definition sample_node :: "bool \<Rightarrow> FullBlock list FullNode" where
  "sample_node syncing =
     \<lparr>blockchain = sample_chain,
      full_node_store = \<lparr>seen_unfinished_blocks = {}, unfinished_blocks = Map.empty,
         finished_sub_slots = [], future_ip_cache = [], fns_rest = 0\<rparr>,
      sync_store = \<lparr>sync_mode = syncing, peer_to_peak = [], peak_to_peer = [],
         sync_target_hash = None, sync_target_height = None, batch_syncing = {},
         peers_changed = False\<rparr>,
      server_present = True, all_connections = [], shut_down = False, events = []\<rparr>"

text \<open>An unfinished block on top of the peak, the node after its delivery, and an overflow
  block with the infusion point that would finish it.\<close>

definition sample_unfinished :: UnfinishedBlock where
  "sample_unfinished =
     \<lparr>ub_partial_hash = [10], ub_reward_hash = [11], ub_prev_header_hash = [2], ub_total_iters = 5,
      ub_signage_point_index = 1, ub_finished_sub_slots = [sample_eos],
      ub_transactions_generator = None, ub_pos_ss_cc_challenge_hash = [0],
      ub_rc_sp_vdf_challenge = Some [12], ub_foliage = 0\<rparr>"

definition sample_node_after_unfinished :: "FullBlock list FullNode" where
  "sample_node_after_unfinished =
     (sample_node False)
       \<lparr>full_node_store :=
          \<lparr>seen_unfinished_blocks = {[10]},
           unfinished_blocks = [[11] \<mapsto> (2, sample_unfinished)],
           finished_sub_slots = [], future_ip_cache = [], fns_rest = 0\<rparr>,
        events :=
          [SendToAll (TimelordNewUnfinishedSubBlock [11] 1 1 0 None [12]) TIMELORD,
           SendToAll (FullNodeNewUnfinishedSubBlock [11]) FULL_NODE,
           StateChanged ''unfinished_sub_block'']\<rparr>"




section \<open>Theorems\<close>

lemmas prog_defs = bind_def seq_def ret_def raise_def gets_def modify_def py_when_def py_assert_def
  emit_def state_changed_def update_sync_store_def update_store_def update_blockchain_def
  set_sync_mode_def get_sync_mode_def diverge_def

lemmas sample_defs = sample_env_def sample_node_def sample_chain_def sample_network_def
  sample_store_ops_def sample_consensus_ops_def sample_blockchain_ops_def sample_block_def
  sample_record_def sample_receive_block_def sample_eos_def


lemma Program_tree_hash_eq_tree_hash:
  "Program_tree_hash std_hash node precalculated = tree_hash std_hash node precalculated"
  by (induction node) (simp_all add: Program_to_def split: sum.splits)

text \<open>
  C10: for every s-expression and every set of precalculated hashes, \<open>Program._tree_hash\<close>
  (behind \<open>Program.get_tree_hash\<close>) gives the same result as the module-level \<open>_tree_hash\<close>
  that \<open>SerializedProgram.get_tree_hash\<close> applies to the deserialized buffer: the same digest,
  or the same exception.
\<close>

theorem tree_hash_methods_agree:
  "Program_tree_hash std_hash (Program_to node) precalculated = tree_hash std_hash node precalculated
   \<and> SerializedProgram_get_tree_hash sexp_from_stream std_hash buf args =
       (case sexp_from_stream buf of
          Inl e \<Rightarrow> Inl e
        | Inr tmp \<Rightarrow> Program_get_tree_hash std_hash (Program_to tmp) args)"
  by (simp add: Program_tree_hash_eq_tree_hash Program_to_def
      SerializedProgram_get_tree_hash_def Program_get_tree_hash_def split: sum.splits)

lemma check_condition_other:
  "\<not> known_opcode (opcode cvp) \<Longrightarrow> check_condition env unspent spend_bundle peak_height cvp = Inr None"
  by (simp add: known_opcode_def check_condition_def)

lemma check_con_list_known_only:
  "check_con_list env unspent spend_bundle peak_height con_list =
   check_con_list env unspent spend_bundle peak_height
     (filter (\<lambda>cvp. known_opcode (opcode cvp)) con_list)"
  by (induction con_list) (simp_all add: check_condition_other split: sum.splits option.splits)

text \<open>
  C5 (as stated): a condition with an opcode outside the five known ones does not make
  \<open>mempool_check_conditions_dict\<close> return \<open>InvalidCondition\<close>. A dictionary whose only
  condition has the opcode \<open>OTHER_OPCODE 51\<close> is accepted: the result is \<open>None\<close>.
\<close>

theorem unknown_opcode_counterexample:
  "mempool_check_conditions_dict
     \<lparr>int_from_bytes = (\<lambda>b. Some 0), now_millis = 0\<rparr>
     \<lparr>coin_name = [], confirmed_block_index = 0\<rparr>
     \<lparr>removal_names = []\<rparr>
     [(OTHER_OPCODE 51, [\<lparr>opcode = OTHER_OPCODE 51, vars = [[1]]\<rparr>])] 0 = Inr None
   \<and> mempool_check_conditions_dict
     \<lparr>int_from_bytes = (\<lambda>b. Some 0), now_millis = 0\<rparr>
     \<lparr>coin_name = [], confirmed_block_index = 0\<rparr>
     \<lparr>removal_names = []\<rparr>
     [(OTHER_OPCODE 51, [\<lparr>opcode = OTHER_OPCODE 51, vars = [[1]]\<rparr>])] 0 \<noteq> Inr (Some INVALID_CONDITION)"
  by (simp add: check_condition_def)

text \<open>
  C5 (amended): conditions whose opcode is not one of the five known opcodes are skipped.
  The result of \<open>mempool_check_conditions_dict\<close> (an error, \<open>None\<close>, or an exception) is the
  one it gives on the dictionary with those conditions removed from every list.
\<close>

theorem unknown_opcodes_are_skipped:
  "mempool_check_conditions_dict env unspent spend_bundle conditions_dict peak_height =
   mempool_check_conditions_dict env unspent spend_bundle
     (map (\<lambda>(k, con_list). (k, filter (\<lambda>cvp. known_opcode (opcode cvp)) con_list)) conditions_dict)
     peak_height"
proof (induction conditions_dict)
  case Nil
  show ?case by simp
next
  case (Cons item rest)
  obtain k con_list where item: "item = (k, con_list)"
    by (cases item)
  show ?case
    unfolding item using Cons.IH
    by (simp add: check_con_list_known_only [symmetric] split: sum.splits option.splits)
qed




text \<open>
  C7: if \<open>start_sub_height > 0\<close> and the block the peer sends for \<open>start_sub_height\<close> has a
  \<open>prev_header_hash\<close> that the blockchain does not contain, \<open>short_sync_batch\<close> returns
  \<open>False\<close> and the node is as before: the peer is not in \<open>batch_syncing\<close>, the blockchain
  and its peak are unchanged, and the trace has no new entry (no call of \<open>receive_block\<close>,
  which \<open>receive_sub_block_batch\<close> would make).
\<close>

theorem short_sync_batch_parent_absent:
  "start_sub_height > 0 \<Longrightarrow>
   request_sub_block (net env) peer start_sub_height False = Some (RespondSubBlock first) \<Longrightarrow>
   \<not> contains_sub_block (bc env) (blockchain s) (fb_prev_header_hash first) \<Longrightarrow>
   short_sync_batch env peer start_sub_height target_sub_height s = Returned False s"
  by (simp add: short_sync_batch_def prog_defs)

theorem short_sync_batch_parent_absent_witness:
  "(7::nat) > 0
   \<and> request_sub_block (net sample_env) [20] 7 False
        = Some (RespondSubBlock (sample_block [8] [7] 7 70))
   \<and> \<not> contains_sub_block (bc sample_env) (blockchain (sample_node False))
          (fb_prev_header_hash (sample_block [8] [7] 7 70))
   \<and> short_sync_batch sample_env [20] 7 50 (sample_node False) = Returned False (sample_node False)"
proof -
  have 1: "request_sub_block (net sample_env) [20] 7 False
      = Some (RespondSubBlock (sample_block [8] [7] 7 70))"
    by (simp add: sample_defs)
  have 2: "\<not> contains_sub_block (bc sample_env) (blockchain (sample_node False))
      (fb_prev_header_hash (sample_block [8] [7] 7 70))"
    by (simp add: sample_defs)
  show ?thesis
    using 1 2 short_sync_batch_parent_absent [of 7 sample_env "[20]" "sample_block [8] [7] 7 70"
        "sample_node False" 50]
    by simp
qed

text \<open>
  C8: while sync mode is true, \<open>respond_sub_block\<close> returns \<open>None\<close> and leaves the node
  state as it was: the blockchain and its peak, the stores, and the trace of messages sent.
\<close>

theorem respond_sub_block_ignored_in_sync_mode:
  "get_sync_mode s \<Longrightarrow> respond_sub_block env sub_block peer s = Returned None s"
  by (simp add: respond_sub_block_def prog_defs)

theorem respond_sub_block_ignored_in_sync_mode_witness:
  "get_sync_mode (sample_node True)
   \<and> respond_sub_block sample_env (sample_block [3] [2] 2 20) None (sample_node True)
       = Returned None (sample_node True)"
proof -
  have 1: "get_sync_mode (sample_node True)"
    by (simp add: sample_defs get_sync_mode_def)
  show ?thesis
    using 1 respond_sub_block_ignored_in_sync_mode [of "sample_node True" sample_env
        "sample_block [3] [2] 2 20" None]
    by simp
qed



lemma respond_unfinished_seen_after:
  "respond_unfinished_sub_block env block peer farmed_block s = r \<Longrightarrow>
   (case r of
      Returned x s' \<Rightarrow> ub_partial_hash block \<in> seen_unfinished_blocks (full_node_store s')
    | Raised e s' \<Rightarrow> ub_partial_hash block \<in> seen_unfinished_blocks (full_node_store s')
    | Diverged \<Rightarrow> True)"
  unfolding respond_unfinished_sub_block_def prog_defs lift_option_def
  by (auto simp: seen_unfinished_block_def add_unfinished_block_def Let_def
      split: if_splits option.splits prod.splits outcome.splits)

lemma respond_unfinished_seen:
  "ub_partial_hash block \<in> seen_unfinished_blocks (full_node_store s) \<Longrightarrow>
   respond_unfinished_sub_block env block peer farmed_block s = Returned () s"
  by (simp add: respond_unfinished_sub_block_def prog_defs seen_unfinished_block_def)

lemma respond_unfinished_trunk_stored:
  "ub_partial_hash block \<notin> seen_unfinished_blocks (full_node_store s) \<Longrightarrow>
   get_unfinished_block (full_node_store s) (ub_reward_hash block) \<noteq> None \<Longrightarrow>
   respond_unfinished_sub_block env block peer farmed_block s =
     Returned () (s\<lparr>full_node_store := (full_node_store s)\<lparr>seen_unfinished_blocks :=
        insert (ub_partial_hash block) (seen_unfinished_blocks (full_node_store s))\<rparr>\<rparr>)"
  by (simp add: respond_unfinished_sub_block_def prog_defs seen_unfinished_block_def
      get_unfinished_block_def split: option.splits)

lemma sample_first_delivery:
  "respond_unfinished_sub_block sample_env sample_unfinished None True (sample_node False)
     = Returned () sample_node_after_unfinished"
  by (simp add: respond_unfinished_sub_block_def prog_defs sample_defs sample_unfinished_def
      sample_node_after_unfinished_def seen_unfinished_block_def get_unfinished_block_def
      unfinished_sub_slot_info_def lift_option_def add_unfinished_block_def Let_def
      numeral_2_eq_2)


text \<open>
  C6: an unfinished block whose partial hash is in the seen set is dropped and the node
  state stays as it was. One whose trunk hash already has a stored unfinished block is
  dropped as well: no unfinished block is stored and nothing is sent; of the node state only
  the seen set changes, which now holds the partial hash (so that both variants of a trunk
  count as seen). After any delivery of a block, a second delivery of it returns at once and
  changes nothing.
\<close>

theorem duplicate_unfinished_block_is_dropped:
  "(ub_partial_hash block \<in> seen_unfinished_blocks (full_node_store s) \<longrightarrow>
      respond_unfinished_sub_block env block peer farmed_block s = Returned () s)
   \<and> (ub_partial_hash block \<notin> seen_unfinished_blocks (full_node_store s)
        \<and> get_unfinished_block (full_node_store s) (ub_reward_hash block) \<noteq> None \<longrightarrow>
      respond_unfinished_sub_block env block peer farmed_block s =
        Returned () (s\<lparr>full_node_store := (full_node_store s)\<lparr>seen_unfinished_blocks :=
           insert (ub_partial_hash block) (seen_unfinished_blocks (full_node_store s))\<rparr>\<rparr>))
   \<and> (\<forall>x s'. respond_unfinished_sub_block env block peer farmed_block s = Returned x s' \<longrightarrow>
        respond_unfinished_sub_block env block peer' farmed_block' s' = Returned () s')
   \<and> (\<forall>e s'. respond_unfinished_sub_block env block peer farmed_block s = Raised e s' \<longrightarrow>
        respond_unfinished_sub_block env block peer' farmed_block' s' = Returned () s')"
proof (intro conjI allI impI)
  fix x s'
  assume "respond_unfinished_sub_block env block peer farmed_block s = Returned x s'"
  from respond_unfinished_seen_after [OF this]
  show "respond_unfinished_sub_block env block peer' farmed_block' s' = Returned () s'"
    by (simp add: respond_unfinished_seen)
next
  fix e s'
  assume "respond_unfinished_sub_block env block peer farmed_block s = Raised e s'"
  from respond_unfinished_seen_after [OF this]
  show "respond_unfinished_sub_block env block peer' farmed_block' s' = Returned () s'"
    by (simp add: respond_unfinished_seen)
qed (simp_all add: respond_unfinished_seen respond_unfinished_trunk_stored)

theorem duplicate_unfinished_block_is_dropped_witness:
  "respond_unfinished_sub_block sample_env sample_unfinished None True (sample_node False)
     = Returned () sample_node_after_unfinished
   \<and> respond_unfinished_sub_block sample_env sample_unfinished (Some [7]) False
       sample_node_after_unfinished = Returned () sample_node_after_unfinished
   \<and> ub_partial_hash (sample_unfinished\<lparr>ub_partial_hash := [13]\<rparr>)
       \<notin> seen_unfinished_blocks (full_node_store sample_node_after_unfinished)
   \<and> get_unfinished_block (full_node_store sample_node_after_unfinished)
       (ub_reward_hash (sample_unfinished\<lparr>ub_partial_hash := [13]\<rparr>)) \<noteq> None
   \<and> respond_unfinished_sub_block sample_env (sample_unfinished\<lparr>ub_partial_hash := [13]\<rparr>)
       (Some [7]) False sample_node_after_unfinished
       = Returned () (sample_node_after_unfinished\<lparr>full_node_store :=
           (full_node_store sample_node_after_unfinished)\<lparr>seen_unfinished_blocks := {[13], [10]}\<rparr>\<rparr>)"
proof -
  have a: "ub_partial_hash (sample_unfinished\<lparr>ub_partial_hash := [13]\<rparr>)
       \<notin> seen_unfinished_blocks (full_node_store sample_node_after_unfinished)"
    by (simp add: sample_node_after_unfinished_def)
  have b: "get_unfinished_block (full_node_store sample_node_after_unfinished)
       (ub_reward_hash (sample_unfinished\<lparr>ub_partial_hash := [13]\<rparr>)) \<noteq> None"
    by (simp add: sample_node_after_unfinished_def get_unfinished_block_def sample_unfinished_def)
  have c: "seen_unfinished_blocks (full_node_store sample_node_after_unfinished) = {[10]}"
    by (simp add: sample_node_after_unfinished_def)
  show ?thesis
    using sample_first_delivery a b c
      duplicate_unfinished_block_is_dropped [of sample_unfinished "sample_node False" sample_env None True "Some [7]" False]
      duplicate_unfinished_block_is_dropped [of "sample_unfinished\<lparr>ub_partial_hash := [13]\<rparr>" sample_node_after_unfinished
        sample_env "Some [7]" False None False]
    by simp
qed












end
